theory Spec2Isabelle
  imports Complex_Main "HOL-Library.Word" "HOL-Library.AList"
begin

chapter \<open>The orchestration core of the ComfyUI MCP server\<close>

text \<open>
  A shallow embedding of the supervisor's core classes: \<open>StateManager\<close>,
  \<open>ServerOrchestrator.executeWithRecovery\<close>, \<open>HealthMonitor\<close>, \<open>ConnectionManager\<close>,
  the workflow-chain engine and \<open>ProcessManager\<close>.  Every class is a record of its
  private fields; a method takes the record and returns the updated one.  What the
  runtime supplies (the clock, random numbers, the outcome of file and network
  operations) is an explicit argument.  \<open>emit\<close> appends to a log of events, so that
  the order of effects can be read off.  \<open>console.error\<close> output is not modelled.
\<close>

section \<open>StateManager\<close>

subsection \<open>Data model\<close>

text \<open>
  A date field holds a \<open>Date\<close> object while the state is live.  \<open>JSON.stringify\<close>
  writes a \<open>Date\<close> as its ISO-8601 text and \<open>JSON.parse\<close> does not turn the text back
  into a \<open>Date\<close>, so after a JSON round trip the field holds a string.  Both forms
  carry the instant in milliseconds.
\<close>

datatype jsdate = DateObj int | DateStr int

fun jsonDate :: "jsdate \<Rightarrow> jsdate" where
  "jsonDate (DateObj t) = DateStr t"
| "jsonDate (DateStr t) = DateStr t"

record connectionState_t =
  isConnected :: bool
  connectionId :: "string option"
  lastConnected :: "jsdate option"
  lastDisconnected :: "jsdate option"
  reconnectAttempts :: int

record processState_t =
  managedProcesses :: "(string \<times> string) list"
  lastCleanup :: "jsdate option"
  activeProcessCount :: int

record healthState_t =
  lastHealthCheck :: "jsdate option"
  healthScore :: int
  overallHealth :: string
  consecutiveFailures :: int

record toolState_t =
  lastToolCall :: "jsdate option"
  toolCallCount :: int
  failedToolCalls :: int
  activeOperations :: "string list"

record errorState_t =
  lastError :: "jsdate option"
  errorCount :: int
  criticalErrors :: int
  recoveryAttempts :: int

record configuration_t =
  comfyuiUrl :: string
  sandboxPath :: string
  autoRestart :: bool
  healthMonitoring :: bool

record ServerState =
  sessionId :: string
  startTime :: jsdate
  lastActivity :: jsdate
  connectionState :: connectionState_t
  processState :: processState_t
  healthState :: healthState_t
  toolState :: toolState_t
  errorState :: errorState_t
  configuration :: configuration_t

record StateSnapshot =
  timestamp :: int
  state :: ServerState
  checksum :: string

record StateManagerConfig =
  persistState :: bool
  stateFilePath :: string
  snapshotInterval :: nat
  maxSnapshots :: int
  autoSave :: bool
  compressionEnabled :: bool

text \<open>
  \<open>Partial<...>\<close> arguments of the mutators: the properties that are present, in the
  order of the object literal.  The spread \<open>{...old, ...updates}\<close> assigns them one
  after the other.
\<close>

datatype connectionState_upd =
    Set_isConnected bool
  | Set_connectionId "string option"
  | Set_lastConnected "jsdate option"
  | Set_lastDisconnected "jsdate option"
  | Set_reconnectAttempts int

datatype processState_upd =
    Set_managedProcesses "(string \<times> string) list"
  | Set_lastCleanup "jsdate option"
  | Set_activeProcessCount int

datatype healthState_upd =
    Set_lastHealthCheck "jsdate option"
  | Set_healthScore int
  | Set_overallHealth string
  | Set_consecutiveFailures int

datatype toolState_upd =
    Set_lastToolCall "jsdate option"
  | Set_toolCallCount int
  | Set_failedToolCalls int
  | Set_activeOperations "string list"

datatype errorState_upd =
    Set_lastError "jsdate option"
  | Set_errorCount int
  | Set_criticalErrors int
  | Set_recoveryAttempts int

datatype configuration_upd =
    Set_comfyuiUrl string
  | Set_sandboxPath string
  | Set_autoRestart bool
  | Set_healthMonitoring bool

fun assign_connectionState :: "connectionState_t \<Rightarrow> connectionState_upd \<Rightarrow> connectionState_t" where
  "assign_connectionState c (Set_isConnected v) = c\<lparr>isConnected := v\<rparr>"
| "assign_connectionState c (Set_connectionId v) = c\<lparr>connectionId := v\<rparr>"
| "assign_connectionState c (Set_lastConnected v) = c\<lparr>lastConnected := v\<rparr>"
| "assign_connectionState c (Set_lastDisconnected v) = c\<lparr>lastDisconnected := v\<rparr>"
| "assign_connectionState c (Set_reconnectAttempts v) = c\<lparr>reconnectAttempts := v\<rparr>"

fun assign_processState :: "processState_t \<Rightarrow> processState_upd \<Rightarrow> processState_t" where
  "assign_processState p (Set_managedProcesses v) = p\<lparr>managedProcesses := v\<rparr>"
| "assign_processState p (Set_lastCleanup v) = p\<lparr>lastCleanup := v\<rparr>"
| "assign_processState p (Set_activeProcessCount v) = p\<lparr>activeProcessCount := v\<rparr>"

fun assign_healthState :: "healthState_t \<Rightarrow> healthState_upd \<Rightarrow> healthState_t" where
  "assign_healthState h (Set_lastHealthCheck v) = h\<lparr>lastHealthCheck := v\<rparr>"
| "assign_healthState h (Set_healthScore v) = h\<lparr>healthScore := v\<rparr>"
| "assign_healthState h (Set_overallHealth v) = h\<lparr>overallHealth := v\<rparr>"
| "assign_healthState h (Set_consecutiveFailures v) = h\<lparr>consecutiveFailures := v\<rparr>"

fun assign_toolState :: "toolState_t \<Rightarrow> toolState_upd \<Rightarrow> toolState_t" where
  "assign_toolState t (Set_lastToolCall v) = t\<lparr>lastToolCall := v\<rparr>"
| "assign_toolState t (Set_toolCallCount v) = t\<lparr>toolCallCount := v\<rparr>"
| "assign_toolState t (Set_failedToolCalls v) = t\<lparr>failedToolCalls := v\<rparr>"
| "assign_toolState t (Set_activeOperations v) = t\<lparr>activeOperations := v\<rparr>"

fun assign_errorState :: "errorState_t \<Rightarrow> errorState_upd \<Rightarrow> errorState_t" where
  "assign_errorState e (Set_lastError v) = e\<lparr>lastError := v\<rparr>"
| "assign_errorState e (Set_errorCount v) = e\<lparr>errorCount := v\<rparr>"
| "assign_errorState e (Set_criticalErrors v) = e\<lparr>criticalErrors := v\<rparr>"
| "assign_errorState e (Set_recoveryAttempts v) = e\<lparr>recoveryAttempts := v\<rparr>"

fun assign_configuration :: "configuration_t \<Rightarrow> configuration_upd \<Rightarrow> configuration_t" where
  "assign_configuration g (Set_comfyuiUrl v) = g\<lparr>comfyuiUrl := v\<rparr>"
| "assign_configuration g (Set_sandboxPath v) = g\<lparr>sandboxPath := v\<rparr>"
| "assign_configuration g (Set_autoRestart v) = g\<lparr>autoRestart := v\<rparr>"
| "assign_configuration g (Set_healthMonitoring v) = g\<lparr>healthMonitoring := v\<rparr>"

subsection \<open>The JSON round trip \<open>JSON.parse(JSON.stringify(state))\<close>\<close>

definition jsonClone :: "ServerState \<Rightarrow> ServerState" where
  "jsonClone s =
     s\<lparr> startTime := jsonDate (startTime s),
        lastActivity := jsonDate (lastActivity s),
        connectionState := (connectionState s)
          \<lparr> lastConnected := map_option jsonDate (lastConnected (connectionState s)),
            lastDisconnected := map_option jsonDate (lastDisconnected (connectionState s)) \<rparr>,
        processState := (processState s)
          \<lparr> lastCleanup := map_option jsonDate (lastCleanup (processState s)) \<rparr>,
        healthState := (healthState s)
          \<lparr> lastHealthCheck := map_option jsonDate (lastHealthCheck (healthState s)) \<rparr>,
        toolState := (toolState s)
          \<lparr> lastToolCall := map_option jsonDate (lastToolCall (toolState s)) \<rparr>,
        errorState := (errorState s)
          \<lparr> lastError := map_option jsonDate (lastError (errorState s)) \<rparr> \<rparr>"

text \<open>
  Deep equality of two states with the date fields compared by the instant they
  denote, whichever of the two forms each has; every other field is compared as it
  is.  This is the equality that the round-trip property of snapshots speaks of; it is
  written from the fields of \<open>ServerState\<close>, not from \<open>jsonClone\<close>.
\<close>

fun instant :: "jsdate \<Rightarrow> int" where
  "instant (DateObj t) = t"
| "instant (DateStr t) = t"

definition same_instant :: "jsdate \<Rightarrow> jsdate \<Rightarrow> bool" where
  "same_instant a b = (instant a = instant b)"

definition same_instant_opt :: "jsdate option \<Rightarrow> jsdate option \<Rightarrow> bool" where
  "same_instant_opt a b = (map_option instant a = map_option instant b)"

definition deepEqual :: "ServerState \<Rightarrow> ServerState \<Rightarrow> bool" where
  "deepEqual s t =
     (same_instant (startTime s) (startTime t) \<and>
      same_instant (lastActivity s) (lastActivity t) \<and>
      same_instant_opt (lastConnected (connectionState s)) (lastConnected (connectionState t)) \<and>
      same_instant_opt (lastDisconnected (connectionState s)) (lastDisconnected (connectionState t)) \<and>
      same_instant_opt (lastCleanup (processState s)) (lastCleanup (processState t)) \<and>
      same_instant_opt (lastHealthCheck (healthState s)) (lastHealthCheck (healthState t)) \<and>
      same_instant_opt (lastToolCall (toolState s)) (lastToolCall (toolState t)) \<and>
      same_instant_opt (lastError (errorState s)) (lastError (errorState t)) \<and>
      s\<lparr> startTime := startTime t,
         lastActivity := lastActivity t,
         connectionState := (connectionState s)
           \<lparr> lastConnected := lastConnected (connectionState t),
             lastDisconnected := lastDisconnected (connectionState t) \<rparr>,
         processState := (processState s)\<lparr> lastCleanup := lastCleanup (processState t) \<rparr>,
         healthState := (healthState s)\<lparr> lastHealthCheck := lastHealthCheck (healthState t) \<rparr>,
         toolState := (toolState s)\<lparr> lastToolCall := lastToolCall (toolState t) \<rparr>,
         errorState := (errorState s)\<lparr> lastError := lastError (errorState t) \<rparr> \<rparr> = t)"

subsection \<open>Events, timers and the persisted file\<close>

text \<open>
  What a rejected promise or a \<open>throw\<close> carries: an \<open>Error\<close> (any object with a string
  \<open>message\<close>), a value without one (a thrown string, number or plain object, given by
  its text), or \<open>null\<close>/\<open>undefined\<close>.
\<close>

datatype thrown = ErrorObject string | NoMessage string | Nullish

text \<open>The \<open>TypeError\<close> that the runtime raises for a property read on \<open>undefined\<close>.\<close>

definition runtimeTypeError :: thrown where
  "runtimeTypeError = ErrorObject ''Cannot read properties of undefined''"

datatype sm_event =
    ConnectionStateChanged connectionState_t
  | ProcessStateChanged processState_t
  | HealthStateChanged healthState_t
  | ToolStateChanged toolState_t
  | ErrorStateChanged errorState_t
  | ConfigurationChanged configuration_t
  | ToolCallRecorded string bool
  | OperationStarted string
  | OperationCompleted string
  | ErrorRecorded thrown bool
  | RecoveryAttempted int
  | StateReset string string
  | SnapshotCreated StateSnapshot
  | StateRestored string string StateSnapshot
  | StateSaved string
  | StateSaveError
  | StateLoaded string
  | StateLoadError

text \<open>
  The timers of the Node.js runtime.  \<open>setInterval\<close> and \<open>setTimeout\<close> both return a
  handle into one table of active timers, and \<open>clearTimeout\<close> and \<open>clearInterval\<close> are
  the same operation: each cancels the timer behind the handle, whichever call made it.
\<close>

datatype timer_kind = Interval | Timeout

datatype sm_callback = PeriodicSave | DebouncedSave | SnapshotTick

record timer =
  t_kind :: timer_kind
  t_delay :: nat
  t_callback :: sm_callback

record persisted =
  p_version :: string
  p_timestamp :: int
  p_state :: ServerState
  p_snapshots :: "StateSnapshot list"

record StateManager =
  currentState :: ServerState
  config :: StateManagerConfig
  snapshots :: "StateSnapshot list"
  snapshotTimer :: "nat option"
  autoSaveTimer :: "nat option"
  activeTimers :: "(nat \<times> timer) list"
  nextHandle :: nat
  emitted :: "sm_event list"
  stateFile :: "persisted option"

definition emit :: "sm_event \<Rightarrow> StateManager \<Rightarrow> StateManager" where
  "emit e sm = sm\<lparr>emitted := emitted sm @ [e]\<rparr>"

definition setTimer :: "timer_kind \<Rightarrow> nat \<Rightarrow> sm_callback \<Rightarrow> StateManager \<Rightarrow> nat \<times> StateManager" where
  "setTimer k d cb sm =
     (nextHandle sm,
      sm\<lparr>activeTimers := activeTimers sm @ [(nextHandle sm, \<lparr>t_kind = k, t_delay = d, t_callback = cb\<rparr>)],
         nextHandle := Suc (nextHandle sm)\<rparr>)"

definition clearTimeout :: "nat \<Rightarrow> StateManager \<Rightarrow> StateManager" where
  "clearTimeout h sm = sm\<lparr>activeTimers := filter (\<lambda>(h', _). h' \<noteq> h) (activeTimers sm)\<rparr>"

subsection \<open>Construction\<close>

text \<open>
  \<open>new Date()\<close> is the argument \<open>now\<close> (milliseconds); a method that reads the clock
  twice is given one instant for both reads.  \<open>generateSessionId()\<close> is the argument
  \<open>sid\<close>.
\<close>

definition createInitialState :: "string \<Rightarrow> int \<Rightarrow> ServerState" where
  "createInitialState sid now =
     \<lparr> sessionId = sid,
       startTime = DateObj now,
       lastActivity = DateObj now,
       connectionState = \<lparr> isConnected = False, connectionId = None, lastConnected = None,
                           lastDisconnected = None, reconnectAttempts = 0 \<rparr>,
       processState = \<lparr> managedProcesses = [], lastCleanup = None, activeProcessCount = 0 \<rparr>,
       healthState = \<lparr> lastHealthCheck = None, healthScore = 0, overallHealth = ''unknown'',
                       consecutiveFailures = 0 \<rparr>,
       toolState = \<lparr> lastToolCall = None, toolCallCount = 0, failedToolCalls = 0,
                     activeOperations = [] \<rparr>,
       errorState = \<lparr> lastError = None, errorCount = 0, criticalErrors = 0,
                      recoveryAttempts = 0 \<rparr>,
       configuration = \<lparr> comfyuiUrl = ''http://127.0.0.1:8188'',
                          sandboxPath = ''sandbox/ComfyUI_Sandbox_CUDA126'',
                          autoRestart = True, healthMonitoring = True \<rparr> \<rparr>"

definition startSnapshotTimer :: "StateManager \<Rightarrow> StateManager" where
  "startSnapshotTimer sm =
     (case setTimer Interval (snapshotInterval (config sm)) SnapshotTick sm of
        (h, sm') \<Rightarrow> sm'\<lparr>snapshotTimer := Some h\<rparr>)"

definition startAutoSave :: "StateManager \<Rightarrow> StateManager" where
  "startAutoSave sm =
     (case setTimer Interval 10000 PeriodicSave sm of
        (h, sm') \<Rightarrow> sm'\<lparr>autoSaveTimer := Some h\<rparr>)"

text \<open>
  The constructor.  \<open>loadPersistedState\<close> is asynchronous: the constructor only starts
  it, and its body runs as a later step (\<open>loadPersistedState\<close> below).  \<open>disk\<close> is the
  state file as it is found.
\<close>

definition new_StateManager ::
  "StateManagerConfig \<Rightarrow> persisted option \<Rightarrow> string \<Rightarrow> int \<Rightarrow> StateManager" where
  "new_StateManager cfg disk sid now =
     (let sm0 = \<lparr> currentState = createInitialState sid now, config = cfg, snapshots = [],
                  snapshotTimer = None, autoSaveTimer = None, activeTimers = [],
                  nextHandle = 0, emitted = [], stateFile = disk \<rparr>;
          sm1 = startSnapshotTimer sm0
      in if autoSave cfg then startAutoSave sm1 else sm1)"

subsection \<open>Persistence\<close>

text \<open>\<open>saveState\<close>; \<open>write_ok\<close> tells whether \<open>ensureDir\<close> and \<open>writeJson\<close> succeed.\<close>

definition saveState :: "bool \<Rightarrow> int \<Rightarrow> StateManager \<Rightarrow> bool \<times> StateManager" where
  "saveState write_ok now sm =
     (if write_ok then
        (True,
         emit (StateSaved (stateFilePath (config sm)))
           (sm\<lparr>stateFile := Some \<lparr> p_version = ''1.0.0'', p_timestamp = now,
                                    p_state = jsonClone (currentState sm),
                                    p_snapshots = drop (length (snapshots sm) - 10) (snapshots sm) \<rparr>\<rparr>))
      else (False, emit StateSaveError sm))"

definition triggerAutoSave :: "StateManager \<Rightarrow> StateManager" where
  "triggerAutoSave sm =
     (if autoSave (config sm) \<and> persistState (config sm) then
        (let sm1 = (case autoSaveTimer sm of Some h \<Rightarrow> clearTimeout h sm | None \<Rightarrow> sm)
         in case setTimer Timeout 2000 DebouncedSave sm1 of
              (h, sm2) \<Rightarrow> sm2\<lparr>autoSaveTimer := Some h\<rparr>)
      else sm)"

datatype load_outcome =
    PathMissing
  | ReadFails
  | FileRead "ServerState option" "StateSnapshot list option"

definition loadPersistedState :: "load_outcome \<Rightarrow> StateManager \<Rightarrow> bool \<times> StateManager" where
  "loadPersistedState outcome sm =
     (case outcome of
        PathMissing \<Rightarrow> (False, sm)
      | ReadFails \<Rightarrow> (False, emit StateLoadError sm)
      | FileRead None _ \<Rightarrow> (False, sm)
      | FileRead (Some persistedState) snaps \<Rightarrow>
          (let st = persistedState\<lparr> sessionId := sessionId (currentState sm),
                                     startTime := startTime (currentState sm) \<rparr>;
               sm1 = sm\<lparr>currentState := st\<rparr>;
               sm2 = (case snaps of None \<Rightarrow> sm1 | Some l \<Rightarrow> sm1\<lparr>snapshots := l\<rparr>)
           in (True, emit (StateLoaded (stateFilePath (config sm))) sm2)))"

subsection \<open>Mutators\<close>

definition touch :: "int \<Rightarrow> ServerState \<Rightarrow> ServerState" where
  "touch now s = s\<lparr>lastActivity := DateObj now\<rparr>"

definition updateConnectionState :: "connectionState_upd list \<Rightarrow> int \<Rightarrow> StateManager \<Rightarrow> StateManager" where
  "updateConnectionState updates now sm =
     (let c = foldl assign_connectionState (connectionState (currentState sm)) updates;
          sm1 = sm\<lparr>currentState := touch now ((currentState sm)\<lparr>connectionState := c\<rparr>)\<rparr>
      in triggerAutoSave (emit (ConnectionStateChanged c) sm1))"

definition updateProcessState :: "processState_upd list \<Rightarrow> int \<Rightarrow> StateManager \<Rightarrow> StateManager" where
  "updateProcessState updates now sm =
     (let p = foldl assign_processState (processState (currentState sm)) updates;
          sm1 = sm\<lparr>currentState := touch now ((currentState sm)\<lparr>processState := p\<rparr>)\<rparr>
      in triggerAutoSave (emit (ProcessStateChanged p) sm1))"

definition updateHealthState :: "healthState_upd list \<Rightarrow> int \<Rightarrow> StateManager \<Rightarrow> StateManager" where
  "updateHealthState updates now sm =
     (let h = foldl assign_healthState (healthState (currentState sm)) updates;
          sm1 = sm\<lparr>currentState := touch now ((currentState sm)\<lparr>healthState := h\<rparr>)\<rparr>
      in triggerAutoSave (emit (HealthStateChanged h) sm1))"

definition updateToolState :: "toolState_upd list \<Rightarrow> int \<Rightarrow> StateManager \<Rightarrow> StateManager" where
  "updateToolState updates now sm =
     (let t = foldl assign_toolState (toolState (currentState sm)) updates;
          sm1 = sm\<lparr>currentState := touch now ((currentState sm)\<lparr>toolState := t\<rparr>)\<rparr>
      in triggerAutoSave (emit (ToolStateChanged t) sm1))"

definition updateErrorState :: "errorState_upd list \<Rightarrow> int \<Rightarrow> StateManager \<Rightarrow> StateManager" where
  "updateErrorState updates now sm =
     (let e = foldl assign_errorState (errorState (currentState sm)) updates;
          sm1 = sm\<lparr>currentState := touch now ((currentState sm)\<lparr>errorState := e\<rparr>)\<rparr>
      in triggerAutoSave (emit (ErrorStateChanged e) sm1))"

definition updateConfiguration :: "configuration_upd list \<Rightarrow> int \<Rightarrow> StateManager \<Rightarrow> StateManager" where
  "updateConfiguration updates now sm =
     (let g = foldl assign_configuration (configuration (currentState sm)) updates;
          sm1 = sm\<lparr>currentState := touch now ((currentState sm)\<lparr>configuration := g\<rparr>)\<rparr>
      in triggerAutoSave (emit (ConfigurationChanged g) sm1))"

definition recordToolCall :: "string \<Rightarrow> bool \<Rightarrow> int \<Rightarrow> StateManager \<Rightarrow> StateManager" where
  "recordToolCall toolName success now sm =
     (let t0 = toolState (currentState sm);
          t1 = t0\<lparr>lastToolCall := Some (DateObj now), toolCallCount := toolCallCount t0 + 1\<rparr>;
          t2 = (if \<not> success then t1\<lparr>failedToolCalls := failedToolCalls t1 + 1\<rparr> else t1);
          sm1 = sm\<lparr>currentState := touch now ((currentState sm)\<lparr>toolState := t2\<rparr>)\<rparr>
      in triggerAutoSave (emit (ToolCallRecorded toolName success) sm1))"

definition addActiveOperation :: "string \<Rightarrow> StateManager \<Rightarrow> StateManager" where
  "addActiveOperation operationId sm =
     (let t = toolState (currentState sm)
      in if operationId \<notin> set (activeOperations t) then
           emit (OperationStarted operationId)
             (sm\<lparr>currentState := (currentState sm)
                   \<lparr>toolState := t\<lparr>activeOperations := activeOperations t @ [operationId]\<rparr>\<rparr>\<rparr>)
         else sm)"

definition removeActiveOperation :: "string \<Rightarrow> StateManager \<Rightarrow> StateManager" where
  "removeActiveOperation operationId sm =
     (let t = toolState (currentState sm)
      in if operationId \<in> set (activeOperations t) then
           emit (OperationCompleted operationId)
             (sm\<lparr>currentState := (currentState sm)
                   \<lparr>toolState := t\<lparr>activeOperations := remove1 operationId (activeOperations t)\<rparr>\<rparr>\<rparr>)
         else sm)"

text \<open>
  \<open>recordError\<close> reads \<open>error.message\<close> for its log line after it has counted the
  error and assigned \<open>lastActivity\<close>.  The orchestrator passes whatever was thrown, cast
  to \<open>Error\<close>; for \<open>null\<close>/\<open>undefined\<close> the read raises, and the method is left with
  the state updated but the event and the save not reached.
\<close>

definition recordError ::
  "thrown \<Rightarrow> bool \<Rightarrow> int \<Rightarrow> StateManager \<Rightarrow> thrown option \<times> StateManager" where
  "recordError error isCritical now sm =
     (let e0 = errorState (currentState sm);
          e1 = e0\<lparr>lastError := Some (DateObj now), errorCount := errorCount e0 + 1\<rparr>;
          e2 = (if isCritical then e1\<lparr>criticalErrors := criticalErrors e1 + 1\<rparr> else e1);
          sm1 = sm\<lparr>currentState := touch now ((currentState sm)\<lparr>errorState := e2\<rparr>)\<rparr>
      in if error = Nullish then (Some runtimeTypeError, sm1)
         else (None, triggerAutoSave (emit (ErrorRecorded error isCritical) sm1)))"

definition recordRecoveryAttempt :: "int \<Rightarrow> StateManager \<Rightarrow> StateManager" where
  "recordRecoveryAttempt now sm =
     (let e0 = errorState (currentState sm);
          e1 = e0\<lparr>recoveryAttempts := recoveryAttempts e0 + 1\<rparr>;
          sm1 = sm\<lparr>currentState := touch now ((currentState sm)\<lparr>errorState := e1\<rparr>)\<rparr>
      in triggerAutoSave (emit (RecoveryAttempted (recoveryAttempts e1)) sm1))"

definition resetState :: "bool \<Rightarrow> string \<Rightarrow> int \<Rightarrow> StateManager \<Rightarrow> StateManager" where
  "resetState preserveConfiguration sid now sm =
     (let oldSessionId = sessionId (currentState sm);
          cfg = (if preserveConfiguration then Some (configuration (currentState sm)) else None);
          fresh = createInitialState sid now;
          st = (case cfg of Some g \<Rightarrow> fresh\<lparr>configuration := g\<rparr> | None \<Rightarrow> fresh);
          sm1 = sm\<lparr>currentState := st\<rparr>
      in triggerAutoSave (emit (StateReset oldSessionId (sessionId st)) sm1))"

subsection \<open>Snapshots\<close>

text \<open>
  \<open>calculateChecksum\<close> works on the UTF-16 code units of \<open>JSON.stringify(state)\<close>; the
  serialiser is the argument \<open>json\<close>.  \<open>hash << 5\<close> and \<open>hash & hash\<close> reduce to a
  signed 32-bit integer, so the running hash is a 32-bit word, read as signed at the
  end, and \<open>toString(16)\<close> writes a minus sign before the hexadecimal digits of a
  negative number.
\<close>

definition hexDigit :: "nat \<Rightarrow> char" where
  "hexDigit d = ''0123456789abcdef'' ! d"

fun hexNat :: "nat \<Rightarrow> string" where
  "hexNat n = (if n < 16 then [hexDigit n] else hexNat (n div 16) @ [hexDigit (n mod 16)])"

declare hexNat.simps [simp del]

definition toString16 :: "int \<Rightarrow> string" where
  "toString16 i = (if i < 0 then CHR ''-'' # hexNat (nat (- i)) else hexNat (nat i))"

definition calculateChecksum :: "nat list \<Rightarrow> string" where
  "calculateChecksum stateString =
     toString16 (sint (foldl (\<lambda>(hash :: 32 word) c. (push_bit 5 hash - hash) + of_nat c) 0 stateString))"

definition createSnapshot ::
  "(ServerState \<Rightarrow> nat list) \<Rightarrow> int \<Rightarrow> StateManager \<Rightarrow> StateSnapshot \<times> StateManager" where
  "createSnapshot json now sm =
     (let snapshot = \<lparr> timestamp = now, state = jsonClone (currentState sm),
                        checksum = calculateChecksum (json (currentState sm)) \<rparr>;
          pushed = snapshots sm @ [snapshot];
          kept = (if int (length pushed) > maxSnapshots (config sm) then tl pushed else pushed)
      in (snapshot, emit (SnapshotCreated snapshot) (sm\<lparr>snapshots := kept\<rparr>)))"

text \<open>
  \<open>restoreFromSnapshot\<close>.  The index is a JavaScript number.  The first guard rejects
  what lies outside \<open>0 \<le> i < length\<close>; the second one (\<open>!snapshot\<close>) rejects what is
  left that is no array index, a number with a fractional part.
\<close>

definition restoreFromSnapshot :: "real \<Rightarrow> StateManager \<Rightarrow> bool \<times> StateManager" where
  "restoreFromSnapshot snapshotIndex sm =
     (if snapshotIndex < 0 \<or> snapshotIndex \<ge> real (length (snapshots sm)) then (False, sm)
      else if of_int \<lfloor>snapshotIndex\<rfloor> \<noteq> snapshotIndex then (False, sm)
      else
        (let snapshot = snapshots sm ! nat \<lfloor>snapshotIndex\<rfloor>;
             oldSessionId = sessionId (currentState sm);
             sm1 = sm\<lparr>currentState := jsonClone (state snapshot)\<rparr>
         in (True, emit (StateRestored oldSessionId (sessionId (currentState sm1)) snapshot) sm1)))"

subsection \<open>Timer callbacks and teardown\<close>

text \<open>
  The runtime fires an active timer: a \<open>Timeout\<close> leaves the table, an \<open>Interval\<close>
  stays.  A handle that is not in the table fires nothing.
\<close>

definition runCallback ::
  "sm_callback \<Rightarrow> (ServerState \<Rightarrow> nat list) \<Rightarrow> bool \<Rightarrow> int \<Rightarrow> StateManager \<Rightarrow> StateManager" where
  "runCallback cb json write_ok now sm =
     (case cb of
        SnapshotTick \<Rightarrow> snd (createSnapshot json now sm)
      | PeriodicSave \<Rightarrow> (if persistState (config sm) then snd (saveState write_ok now sm) else sm)
      | DebouncedSave \<Rightarrow> snd (saveState write_ok now sm))"

definition fireTimer ::
  "nat \<Rightarrow> (ServerState \<Rightarrow> nat list) \<Rightarrow> bool \<Rightarrow> int \<Rightarrow> StateManager \<Rightarrow> StateManager" where
  "fireTimer h json write_ok now sm =
     (case map_of (activeTimers sm) h of
        None \<Rightarrow> sm
      | Some t \<Rightarrow>
          runCallback (t_callback t) json write_ok now
            (if t_kind t = Timeout then clearTimeout h sm else sm))"

definition destroy :: "bool \<Rightarrow> int \<Rightarrow> StateManager \<Rightarrow> StateManager" where
  "destroy write_ok now sm =
     (let sm1 = (case snapshotTimer sm of Some h \<Rightarrow> clearTimeout h sm | None \<Rightarrow> sm);
          sm2 = (case autoSaveTimer sm1 of Some h \<Rightarrow> clearTimeout h sm1 | None \<Rightarrow> sm1)
      in if persistState (config sm2) then snd (saveState write_ok now sm2) else sm2)"

text \<open>The periodic save is live while an interval timer with that callback is active.\<close>

definition periodicSaveActive :: "StateManager \<Rightarrow> bool" where
  "periodicSaveActive sm =
     list_ex (\<lambda>(h, t). t_kind t = Interval \<and> t_callback t = PeriodicSave) (activeTimers sm)"

subsection \<open>A concrete run\<close>

text \<open>
  The configuration that \<open>ServerOrchestrator\<close> passes (the other fields at their
  defaults), a state manager built at instant 1000 with session id \<open>session_A\<close>, and
  the same manager after a snapshot at 2000 and \<open>resetState(true)\<close> at 3000, which
  issues the session id \<open>session_B\<close>.
\<close>

definition exampleConfig :: StateManagerConfig where
  "exampleConfig =
     \<lparr> persistState = True, stateFilePath = ''state/server-state.json'',
       snapshotInterval = 30000, maxSnapshots = 100, autoSave = True,
       compressionEnabled = False \<rparr>"

definition exampleJson :: "ServerState \<Rightarrow> nat list" where
  "exampleJson s = map of_char (sessionId s)"

definition smA :: StateManager where
  "smA = new_StateManager exampleConfig None ''session_A'' 1000"

definition smB :: StateManager where
  "smB = resetState True ''session_B'' 3000 (snd (createSnapshot exampleJson 2000 smA))"

section \<open>ServerOrchestrator.executeWithRecovery\<close>

subsection \<open>Error contexts (\<open>ErrorRecovery.createErrorContext\<close>)\<close>

datatype severity_t = Low | Medium | High | Critical

record ErrorContext =
  operation :: string
  toolName :: string
  ec_timestamp :: int
  error :: thrown
  severity :: severity_t
  recoverable :: bool
  metadata :: "(string \<times> string) list"

text \<open>\<open>String.prototype.includes\<close> and \<open>toLowerCase\<close> (on the ASCII letters).\<close>

fun str_includes :: "string \<Rightarrow> string \<Rightarrow> bool" where
  "str_includes [] p = (p = [])"
| "str_includes (c # cs) p = (take (length p) (c # cs) = p \<or> str_includes cs p)"

definition toLowerCase :: "string \<Rightarrow> string" where
  "toLowerCase s =
     map (\<lambda>c. if of_char c \<ge> (65 :: nat) \<and> of_char c \<le> (90 :: nat)
              then char_of (of_char c + (32 :: nat)) else c) s"

definition matchesRecoverablePattern :: "string \<Rightarrow> bool" where
  "matchesRecoverablePattern message =
     list_ex (\<lambda>pattern. str_includes (toLowerCase message) (toLowerCase pattern))
       [''ECONNREFUSED'', ''timeout'', ''Connection'', ''Network'', ''Server'', ''queue'']"

text \<open>
  \<open>isRecoverable\<close> returns \<open>false\<close> for severity \<open>critical\<close> before it looks at the
  error.  Otherwise it calls \<open>error.message.toLowerCase()\<close>, which raises a \<open>TypeError\<close>
  for a thrown value without a \<open>message\<close>.
\<close>

definition isRecoverable :: "thrown \<Rightarrow> severity_t \<Rightarrow> thrown + bool" where
  "isRecoverable err sev =
     (if sev = Critical then Inr False
      else
        (case err of
           ErrorObject message \<Rightarrow> Inr (matchesRecoverablePattern message)
         | NoMessage _ \<Rightarrow> Inl runtimeTypeError
         | Nullish \<Rightarrow> Inl runtimeTypeError))"

definition createErrorContext ::
  "string \<Rightarrow> string \<Rightarrow> thrown \<Rightarrow> severity_t \<Rightarrow> (string \<times> string) list \<Rightarrow> int
     \<Rightarrow> thrown + ErrorContext" where
  "createErrorContext op tool err sev md now =
     (case isRecoverable err sev of
        Inl raised \<Rightarrow> Inl raised
      | Inr r \<Rightarrow>
          Inr \<lparr> operation = op, toolName = tool, ec_timestamp = now, error = err,
                severity = sev, recoverable = r, metadata = md \<rparr>)"

subsection \<open>The orchestrator\<close>

text \<open>
  The part of the orchestrator that \<open>executeWithRecovery\<close> touches: the state manager
  (\<open>null\<close> when state management is off), the clock, and the rest of the world in
  \<open>world\<close>.  An executor and \<open>ErrorRecovery.handleError\<close> are asynchronous procedures
  over this state: they may change all of it, take time, and end in a value or in a
  rejection.  The recovery strategies behind \<open>handleError\<close> depend on the network, so
  \<open>handleError\<close> is an argument: \<open>None\<close> stands for \<open>errorRecovery === null\<close>.
\<close>

record 'w Orchestrator =
  stateManager :: "StateManager option"
  clock :: int
  world :: 'w

type_synonym ('w, 'a) async = "'w Orchestrator \<Rightarrow> (thrown + 'a) \<times> 'w Orchestrator"

definition withStateManager ::
  "(int \<Rightarrow> StateManager \<Rightarrow> StateManager) \<Rightarrow> 'w Orchestrator \<Rightarrow> 'w Orchestrator" where
  "withStateManager f s =
     (case stateManager s of
        None \<Rightarrow> s
      | Some sm \<Rightarrow> s\<lparr>stateManager := Some (f (clock s) sm)\<rparr>)"

fun decNat :: "nat \<Rightarrow> string" where
  "decNat n = (if n < 10 then [hexDigit n] else decNat (n div 10) @ [hexDigit (n mod 10)])"

declare decNat.simps [simp del]

definition numberToString :: "int \<Rightarrow> string" where
  "numberToString i = (if i < 0 then CHR ''-'' # decNat (nat (- i)) else decNat (nat i))"

text \<open>The bookkeeping at the head of the \<open>catch\<close> block; \<open>recordError\<close> may raise.\<close>

definition recordFailure ::
  "string \<Rightarrow> string \<Rightarrow> thrown \<Rightarrow> 'w Orchestrator \<Rightarrow> thrown option \<times> 'w Orchestrator" where
  "recordFailure operationId tool err s =
     (case stateManager s of
        None \<Rightarrow> (None, s)
      | Some sm \<Rightarrow>
          (case recordError err False (clock s)
                  (recordToolCall tool False (clock s) (removeActiveOperation operationId sm)) of
             (raised, sm') \<Rightarrow> (raised, s\<lparr>stateManager := Some sm'\<rparr>)))"

text \<open>
  \<open>executeWithRecovery\<close>.  Besides the outcome (\<open>Inl\<close>: what the returned promise
  rejects with) and the final state, the model returns how many times it has invoked
  the executor.
\<close>

definition executeWithRecovery ::
  "(ErrorContext \<Rightarrow> ('w, bool) async) option \<Rightarrow> string \<Rightarrow> string \<Rightarrow> ('w, 'a) async
     \<Rightarrow> (string \<times> string) list \<Rightarrow> 'w Orchestrator \<Rightarrow> (thrown + 'a) \<times> nat \<times> 'w Orchestrator" where
  "executeWithRecovery handleError op tool executor md s =
     (let operationId = tool @ ''_'' @ op @ ''_'' @ numberToString (clock s);
          s1 = withStateManager
                 (\<lambda>now sm. recordToolCall tool True now (addActiveOperation operationId sm)) s
      in case executor s1 of
           (Inr result, s2) \<Rightarrow>
             (Inr result, 1, withStateManager (\<lambda>now. removeActiveOperation operationId) s2)
         | (Inl err, s2) \<Rightarrow>
             (case recordFailure operationId tool err s2 of
                (Some raised, s3) \<Rightarrow> (Inl raised, 1, s3)
              | (None, s3) \<Rightarrow>
                  (case handleError of
                     None \<Rightarrow> (Inl err, 1, s3)
                   | Some handle \<Rightarrow>
                       (case createErrorContext op tool err Medium md (clock s3) of
                          Inl raised \<Rightarrow> (Inl raised, 1, s3)
                        | Inr context \<Rightarrow>
                            (case handle context s3 of
                               (Inl raised, s4) \<Rightarrow> (Inl raised, 1, s4)
                             | (Inr recovered, s4) \<Rightarrow>
                                 if recovered then
                                   (case executor s4 of
                                      (Inr result, s5) \<Rightarrow>
                                        (Inr result, 2,
                                         withStateManager (\<lambda>now. recordToolCall tool True now) s5)
                                    | (Inl retryError, s5) \<Rightarrow> (Inl retryError, 2, s5))
                                 else (Inl err, 1, s4))))))"

subsection \<open>A concrete run\<close>

text \<open>
  An executor that counts its invocations in \<open>world\<close> and fails the first two times, a
  recovery that reports the given outcome, and an orchestrator at instant 5000.
\<close>

definition exampleExecutor :: "(nat, string) async" where
  "exampleExecutor s =
     (if world s = 0 then Inl (ErrorObject ''Connection refused'')
      else if world s = 1 then Inl (ErrorObject ''queue is full'')
      else Inr ''done'',
      s\<lparr>world := Suc (world s), clock := clock s + 10\<rparr>)"

definition exampleHandler :: "bool \<Rightarrow> ErrorContext \<Rightarrow> (nat, bool) async" where
  "exampleHandler r context s = (Inr r, s\<lparr>clock := clock s + 100\<rparr>)"

definition exampleOrchestrator :: "nat Orchestrator" where
  "exampleOrchestrator = \<lparr> stateManager = Some smA, clock = 5000, world = 0 \<rparr>"

section \<open>HealthMonitor\<close>

subsection \<open>Data model\<close>

datatype overall_t = Healthy | Degraded | Unhealthy | CriticalStatus

record comfyuiServerHealth_t =
  isRunning :: bool
  responseTime :: "int option"
  queueSize :: "int option"
  isProcessing :: bool
  comfyui_lastError :: "string option"

record mcpServerHealth_t =
  isResponsive :: bool
  heapUsed :: "int option"
  uptime :: int
  mcp_lastError :: "string option"

record systemHealth_t =
  availableMemory :: "int option"
  cpuUsage :: "int option"
  diskSpace :: "int option"
  networkConnectivity :: bool

record hm_ProcessInfo =
  hp_pid :: int
  hp_name :: string
  hp_commandLine :: string
  hp_memoryUsage :: int
  hp_cpuUsage :: int
  hp_status :: string

record PortStatus =
  port :: int
  isOpen :: bool
  processId :: "int option"
  processName :: "string option"

record processHealth_t =
  comfyuiProcesses :: "hm_ProcessInfo list"
  zombieProcesses :: "hm_ProcessInfo list"
  portStatus :: "PortStatus list"

record HealthMetrics =
  hm_timestamp :: int
  comfyuiServerHealth :: comfyuiServerHealth_t
  mcpServerHealth :: mcpServerHealth_t
  systemHealth :: systemHealth_t
  processHealth :: processHealth_t
  hm_overallHealth :: overall_t
  hm_healthScore :: int

record HealthMonitorConfig =
  checkInterval :: nat
  hm_comfyuiUrl :: string
  healthThreshold :: int
  criticalThreshold :: int
  maxConsecutiveFailures :: int
  enableSystemMetrics :: bool
  enableProcessMonitoring :: bool

datatype hm_event =
    MonitoringStarted
  | MonitoringStopped
  | HealthCheck HealthMetrics
  | HealthCheckError thrown int
  | CriticalFailure int
  | HealthStatusChanged overall_t "overall_t option" HealthMetrics
  | CriticalHealth HealthMetrics
  | UnhealthyStatus HealthMetrics
  | DegradedPerformance HealthMetrics

record HealthMonitor =
  hm_config :: HealthMonitorConfig
  monitorTimer :: "nat option"
  isMonitoring :: bool
  hm_consecutiveFailures :: int
  lastHealthMetrics :: "HealthMetrics option"
  healthHistory :: "HealthMetrics list"
  hm_emitted :: "hm_event list"

definition maxHistorySize :: nat where
  "maxHistorySize = 100"

definition new_HealthMonitor :: "HealthMonitorConfig \<Rightarrow> HealthMonitor" where
  "new_HealthMonitor cfg =
     \<lparr> hm_config = cfg, monitorTimer = None, isMonitoring = False, hm_consecutiveFailures = 0,
       lastHealthMetrics = None, healthHistory = [], hm_emitted = [] \<rparr>"

definition hm_emit :: "hm_event \<Rightarrow> HealthMonitor \<Rightarrow> HealthMonitor" where
  "hm_emit e hm = hm\<lparr>hm_emitted := hm_emitted hm @ [e]\<rparr>"

subsection \<open>Scoring\<close>

text \<open>
  \<open>x && x < n\<close> on a nullable number is false for \<open>null\<close> and for \<open>0\<close>.  The
  guard on the heap tests the \<open>memoryUsage\<close> object instead, which is \<open>null\<close> or an
  object: \<open>heapUsed mcp = None\<close> stands for \<open>memoryUsage === null\<close>, and a heap of \<open>0\<close>
  passes.  \<open>Math.round((score / maxScore) * 100)\<close> rounds half up; the quotient is taken
  exactly here (the floating-point error is far below one half).
\<close>

definition truthyAnd :: "int option \<Rightarrow> (int \<Rightarrow> bool) \<Rightarrow> bool" where
  "truthyAnd x p = (case x of None \<Rightarrow> False | Some v \<Rightarrow> v \<noteq> 0 \<and> p v)"

definition mathRound :: "real \<Rightarrow> int" where
  "mathRound x = \<lfloor>x + 1 / 2\<rfloor>"

definition calculateHealthScore ::
  "comfyuiServerHealth_t \<Rightarrow> mcpServerHealth_t \<Rightarrow> systemHealth_t \<Rightarrow> processHealth_t \<Rightarrow> int" where
  "calculateHealthScore comfyui mcp system process =
     (let score =
            (if isRunning comfyui then 30 else 0)
          + (if truthyAnd (responseTime comfyui) (\<lambda>t. t < 1000) then 10 else 0)
          + (if isResponsive mcp then 20 else 0)
          + (if (case heapUsed mcp of None \<Rightarrow> False | Some m \<Rightarrow> m < 100 * 1024 * 1024)
             then 10 else 0)
          + (if networkConnectivity system then 10 else 0)
          + (if truthyAnd (availableMemory system) (\<lambda>m. m > 1024 * 1024 * 1024) then 10 else 0)
          + (if length (comfyuiProcesses process) > 0 then 5 else 0)
          + (if list_ex (\<lambda>p. port p = 8188 \<and> isOpen p) (portStatus process) then 5 else 0);
          maxScore = 40 + 30 + 20 + 10
      in mathRound ((real_of_int score / real_of_int maxScore) * 100))"

definition determineOverallHealth :: "HealthMonitorConfig \<Rightarrow> int \<Rightarrow> overall_t" where
  "determineOverallHealth cfg score =
     (if score \<ge> healthThreshold cfg then Healthy
      else if score \<ge> criticalThreshold cfg then Degraded
      else if score > 0 then Unhealthy
      else CriticalStatus)"

subsection \<open>One health check\<close>

text \<open>
  What the four probes of one check return.  Each probe catches its own failures and
  turns them into a reading, so the readings are all that a check takes from the
  outside.
\<close>

record readings =
  r_timestamp :: int
  r_comfyui :: comfyuiServerHealth_t
  r_mcp :: mcpServerHealth_t
  r_system :: systemHealth_t
  r_process :: processHealth_t

definition getEmptySystemHealth :: systemHealth_t where
  "getEmptySystemHealth =
     \<lparr> availableMemory = None, cpuUsage = None, diskSpace = None, networkConnectivity = False \<rparr>"

definition getEmptyProcessHealth :: processHealth_t where
  "getEmptyProcessHealth = \<lparr> comfyuiProcesses = [], zombieProcesses = [], portStatus = [] \<rparr>"

definition collectHealthMetrics :: "HealthMonitorConfig \<Rightarrow> readings \<Rightarrow> HealthMetrics" where
  "collectHealthMetrics cfg r =
     (let sys = (if enableSystemMetrics cfg then r_system r else getEmptySystemHealth);
          proc = (if enableProcessMonitoring cfg then r_process r else getEmptyProcessHealth);
          score = calculateHealthScore (r_comfyui r) (r_mcp r) sys proc
      in \<lparr> hm_timestamp = r_timestamp r, comfyuiServerHealth = r_comfyui r,
           mcpServerHealth = r_mcp r, systemHealth = sys, processHealth = proc,
           hm_overallHealth = determineOverallHealth cfg score, hm_healthScore = score \<rparr>)"

definition analyzeHealthStatus :: "HealthMetrics \<Rightarrow> HealthMonitor \<Rightarrow> HealthMonitor" where
  "analyzeHealthStatus metrics hm =
     (let prevHealth = map_option hm_overallHealth (lastHealthMetrics hm);
          currentHealth = hm_overallHealth metrics;
          hm1 = (if prevHealth \<noteq> Some currentHealth
                 then hm_emit (HealthStatusChanged currentHealth prevHealth metrics) hm else hm);
          hm2 = (if currentHealth = Healthy then hm1\<lparr>hm_consecutiveFailures := 0\<rparr>
                 else hm1\<lparr>hm_consecutiveFailures := hm_consecutiveFailures hm1 + 1\<rparr>)
      in if currentHealth = CriticalStatus then hm_emit (CriticalHealth metrics) hm2
         else if currentHealth = Unhealthy then hm_emit (UnhealthyStatus metrics) hm2
         else if currentHealth = Degraded then hm_emit (DegradedPerformance metrics) hm2
         else hm2)"

text \<open>
  \<open>performHealthCheck\<close>, from the point where \<open>collectHealthMetrics\<close> has settled:
  \<open>Inr\<close> with the readings, or \<open>Inl\<close> when it rejected.  The new metrics are stored in
  \<open>lastHealthMetrics\<close> first and analysed afterwards, as in the source.
\<close>

definition performHealthCheck :: "thrown + readings \<Rightarrow> HealthMonitor \<Rightarrow> HealthMonitor" where
  "performHealthCheck collected hm =
     (case collected of
        Inr r \<Rightarrow>
          (let metrics = collectHealthMetrics (hm_config hm) r;
               pushed = healthHistory hm @ [metrics];
               hm1 = hm\<lparr> lastHealthMetrics := Some metrics,
                         healthHistory := (if length pushed > maxHistorySize then tl pushed else pushed) \<rparr>
           in hm_emit (HealthCheck metrics) (analyzeHealthStatus metrics hm1))
      | Inl err \<Rightarrow>
          (let hm1 = hm\<lparr>hm_consecutiveFailures := hm_consecutiveFailures hm + 1\<rparr>;
               hm2 = hm_emit (HealthCheckError err (hm_consecutiveFailures hm1)) hm1
           in if hm_consecutiveFailures hm2 \<ge> maxConsecutiveFailures (hm_config hm2)
              then hm_emit (CriticalFailure (hm_consecutiveFailures hm2)) hm2 else hm2))"

definition startMonitoring :: "nat \<Rightarrow> HealthMonitor \<Rightarrow> HealthMonitor" where
  "startMonitoring handle hm =
     (if isMonitoring hm then hm
      else hm_emit MonitoringStarted (hm\<lparr>isMonitoring := True, monitorTimer := Some handle\<rparr>))"

definition stopMonitoring :: "HealthMonitor \<Rightarrow> HealthMonitor" where
  "stopMonitoring hm =
     (if \<not> isMonitoring hm then hm
      else hm_emit MonitoringStopped (hm\<lparr>isMonitoring := False, monitorTimer := None\<rparr>))"

fun isStatusChange :: "hm_event \<Rightarrow> bool" where
  "isStatusChange (HealthStatusChanged _ _ _) = True"
| "isStatusChange _ = False"

subsection \<open>A concrete run\<close>

text \<open>
  The monitor as \<open>ServerOrchestrator\<close> configures it, a check in which every probe
  succeeds, and a following check in which the service is down.
\<close>

definition exampleMonitorConfig :: HealthMonitorConfig where
  "exampleMonitorConfig =
     \<lparr> checkInterval = 5000, hm_comfyuiUrl = ''http://127.0.0.1:8188'', healthThreshold = 70,
       criticalThreshold = 30, maxConsecutiveFailures = 3, enableSystemMetrics = True,
       enableProcessMonitoring = True \<rparr>"

definition readingsUp :: readings where
  "readingsUp =
     \<lparr> r_timestamp = 1000,
       r_comfyui = \<lparr> isRunning = True, responseTime = Some 12, queueSize = Some 0,
                     isProcessing = False, comfyui_lastError = None \<rparr>,
       r_mcp = \<lparr> isResponsive = True, heapUsed = Some 50000000, uptime = 60, mcp_lastError = None \<rparr>,
       r_system = \<lparr> availableMemory = Some 8000000000, cpuUsage = None, diskSpace = None,
                    networkConnectivity = True \<rparr>,
       r_process = \<lparr> comfyuiProcesses = [\<lparr> hp_pid = 4242, hp_name = ''python.exe'',
                        hp_commandLine = ''python ComfyUI/main.py'', hp_memoryUsage = 1000,
                        hp_cpuUsage = 0, hp_status = ''running'' \<rparr>],
                     zombieProcesses = [],
                     portStatus = [\<lparr> port = 8188, isOpen = True, processId = Some 4242,
                                     processName = None \<rparr>] \<rparr> \<rparr>"

definition readingsDown :: readings where
  "readingsDown =
     \<lparr> r_timestamp = 6000,
       r_comfyui = \<lparr> isRunning = False, responseTime = None, queueSize = None,
                     isProcessing = False, comfyui_lastError = Some ''fetch failed'' \<rparr>,
       r_mcp = \<lparr> isResponsive = True, heapUsed = Some 50000000, uptime = 65, mcp_lastError = None \<rparr>,
       r_system = getEmptySystemHealth,
       r_process = getEmptyProcessHealth \<rparr>"

definition monitorAfterUp :: HealthMonitor where
  "monitorAfterUp = performHealthCheck (Inr readingsUp) (new_HealthMonitor exampleMonitorConfig)"

definition monitorAfterDown :: HealthMonitor where
  "monitorAfterDown = performHealthCheck (Inr readingsDown) monitorAfterUp"

section \<open>ConnectionManager\<close>

text \<open>
  Delays are JavaScript numbers, taken as reals.  \<open>Math.random()\<close> is the argument
  \<open>rnd\<close>, a number in \<open>[0, 1)\<close>; the jitter is \<open>rnd * 1000\<close>.
\<close>

record ConnectionConfig =
  cfg_maxReconnectAttempts :: int
  cfg_baseReconnectDelay :: real
  cfg_maxReconnectDelay :: real
  cfg_healthCheckInterval :: real
  connectionTimeout :: real

record ConnectionState =
  cm_isConnected :: bool
  cm_lastConnected :: "int option"
  cm_lastDisconnected :: "int option"
  cm_reconnectAttempts :: int
  maxReconnectAttempts :: int
  reconnectDelay :: real
  baseReconnectDelay :: real
  maxReconnectDelay :: real
  cm_connectionId :: string
  healthCheckInterval :: real
  cm_lastHealthCheck :: "int option"
  isHealthy :: bool

datatype cm_event =
    Connected string
  | ConnectionFailed thrown int
  | ConnectionAbandoned int
  | ReconnectAttempt int
  | Disconnected string
  | HealthChanged bool
  | ReconnectRequired
  | ConnectionHealthCheckError thrown

text \<open>
  \<open>healthCheckTimer\<close> and \<open>reconnectTimer\<close> hold the delay of the timer they refer to;
  \<open>reconnectPending\<close> tells whether the one-shot reconnect timer has yet to fire.
\<close>

record ConnectionManager =
  cm_state :: ConnectionState
  healthCheckTimer :: "real option"
  reconnectTimer :: "real option"
  reconnectPending :: bool
  cm_config :: ConnectionConfig
  cm_emitted :: "cm_event list"

definition cm_emit :: "cm_event \<Rightarrow> ConnectionManager \<Rightarrow> ConnectionManager" where
  "cm_emit e cm = cm\<lparr>cm_emitted := cm_emitted cm @ [e]\<rparr>"

definition new_ConnectionManager :: "ConnectionConfig \<Rightarrow> string \<Rightarrow> ConnectionManager" where
  "new_ConnectionManager cfg cid =
     \<lparr> cm_state =
         \<lparr> cm_isConnected = False, cm_lastConnected = None, cm_lastDisconnected = None,
           cm_reconnectAttempts = 0, maxReconnectAttempts = cfg_maxReconnectAttempts cfg,
           reconnectDelay = cfg_baseReconnectDelay cfg,
           baseReconnectDelay = cfg_baseReconnectDelay cfg,
           maxReconnectDelay = cfg_maxReconnectDelay cfg, cm_connectionId = cid,
           healthCheckInterval = cfg_healthCheckInterval cfg, cm_lastHealthCheck = None,
           isHealthy = False \<rparr>,
       healthCheckTimer = None, reconnectTimer = None, reconnectPending = False,
       cm_config = cfg, cm_emitted = [] \<rparr>"

definition stopHealthCheck :: "ConnectionManager \<Rightarrow> ConnectionManager" where
  "stopHealthCheck cm = cm\<lparr>healthCheckTimer := None\<rparr>"

definition startHealthCheck :: "ConnectionManager \<Rightarrow> ConnectionManager" where
  "startHealthCheck cm =
     (stopHealthCheck cm)\<lparr>healthCheckTimer := Some (healthCheckInterval (cm_state cm))\<rparr>"

definition stopReconnectTimer :: "ConnectionManager \<Rightarrow> ConnectionManager" where
  "stopReconnectTimer cm = cm\<lparr>reconnectTimer := None, reconnectPending := False\<rparr>"

definition onConnectionSuccess :: "int \<Rightarrow> ConnectionManager \<Rightarrow> ConnectionManager" where
  "onConnectionSuccess now cm =
     (let st = (cm_state cm)
            \<lparr> cm_isConnected := True, cm_lastConnected := Some now, cm_reconnectAttempts := 0,
              reconnectDelay := baseReconnectDelay (cm_state cm), isHealthy := True,
              cm_lastHealthCheck := Some now \<rparr>
      in startHealthCheck (cm_emit (Connected (cm_connectionId st)) (cm\<lparr>cm_state := st\<rparr>)))"

definition scheduleReconnect :: "real \<Rightarrow> ConnectionManager \<Rightarrow> ConnectionManager" where
  "scheduleReconnect rnd cm =
     (let st = cm_state cm;
          cm1 = cm\<lparr>reconnectTimer := Some (reconnectDelay st), reconnectPending := True\<rparr>
      in cm1\<lparr>cm_state := st\<lparr>reconnectDelay :=
                  min (reconnectDelay st * 2 + rnd * 1000) (maxReconnectDelay st)\<rparr>\<rparr>)"

text \<open>
  \<open>onConnectionFailure\<close> updates the state and then writes a log line that reads
  \<open>error.message\<close>.  \<open>connect\<close> passes whatever the handler rejected with: for
  \<open>null\<close>/\<open>undefined\<close> the read raises a \<open>TypeError\<close>, and neither the event nor the
  reconnect is reached.  The first component of the result is what the method raises.
\<close>

definition onConnectionFailure ::
  "thrown \<Rightarrow> int \<Rightarrow> real \<Rightarrow> ConnectionManager \<Rightarrow> thrown option \<times> ConnectionManager" where
  "onConnectionFailure err now rnd cm =
     (let st = (cm_state cm)
            \<lparr> cm_isConnected := False, cm_lastDisconnected := Some now,
              cm_reconnectAttempts := cm_reconnectAttempts (cm_state cm) + 1, isHealthy := False \<rparr>;
          cm0 = cm\<lparr>cm_state := st\<rparr>
      in if err = Nullish then (Some runtimeTypeError, cm0)
         else
           (let cm1 = cm_emit (ConnectionFailed err (cm_reconnectAttempts st)) cm0
            in (None,
                if cm_reconnectAttempts st < maxReconnectAttempts st then scheduleReconnect rnd cm1
                else cm_emit (ConnectionAbandoned (cm_reconnectAttempts st)) cm1)))"

text \<open>
  \<open>connect\<close>, from the point where the race between the handler and the connection
  timeout has settled: \<open>Inr b\<close> when the handler returned \<open>b\<close>, \<open>Inl e\<close> when the
  handler or the timeout rejected.  \<open>onConnectionFailure\<close> runs inside the \<open>catch\<close>
  block, so what it raises is what \<open>connect\<close> rejects with.
\<close>

definition failed :: "thrown option \<times> ConnectionManager \<Rightarrow> (thrown + bool) \<times> ConnectionManager" where
  "failed r = (case r of (None, cm) \<Rightarrow> (Inr False, cm) | (Some raised, cm) \<Rightarrow> (Inl raised, cm))"

definition connect ::
  "thrown + bool \<Rightarrow> int \<Rightarrow> real \<Rightarrow> ConnectionManager \<Rightarrow> (thrown + bool) \<times> ConnectionManager" where
  "connect settled now rnd cm =
     (case settled of
        Inr isUp \<Rightarrow>
          if isUp then (Inr True, onConnectionSuccess now cm)
          else failed (onConnectionFailure (ErrorObject ''Connection handler returned false'') now rnd cm)
      | Inl err \<Rightarrow> failed (onConnectionFailure err now rnd cm))"

definition disconnect :: "int \<Rightarrow> ConnectionManager \<Rightarrow> ConnectionManager" where
  "disconnect now cm =
     (let st = (cm_state cm)
            \<lparr> cm_isConnected := False, cm_lastDisconnected := Some now, isHealthy := False \<rparr>
      in cm_emit (Disconnected (cm_connectionId st))
           (stopReconnectTimer (stopHealthCheck (cm\<lparr>cm_state := st\<rparr>))))"

definition handleUnhealthyConnection :: "int \<Rightarrow> ConnectionManager \<Rightarrow> ConnectionManager" where
  "handleUnhealthyConnection now cm =
     (if cm_isConnected (cm_state cm) then cm_emit ReconnectRequired (disconnect now cm) else cm)"

text \<open>One tick of the health-check interval; \<open>probe\<close> is what \<open>performHealthCheck\<close> returned.\<close>

definition healthCheckTick :: "bool \<Rightarrow> int \<Rightarrow> ConnectionManager \<Rightarrow> ConnectionManager" where
  "healthCheckTick probe now cm =
     (let cm1 = cm\<lparr>cm_state := (cm_state cm)\<lparr>cm_lastHealthCheck := Some now\<rparr>\<rparr>
      in if probe \<noteq> isHealthy (cm_state cm1) then
           (let cm2 = cm_emit (HealthChanged probe)
                        (cm1\<lparr>cm_state := (cm_state cm1)\<lparr>isHealthy := probe\<rparr>\<rparr>)
            in if \<not> probe then handleUnhealthyConnection now cm2 else cm2)
         else cm1)"

text \<open>The reconnect timer fires: it only announces the next attempt.\<close>

definition reconnectTimerFires :: "ConnectionManager \<Rightarrow> ConnectionManager" where
  "reconnectTimerFires cm =
     (if reconnectPending cm then
        cm_emit (ReconnectAttempt (cm_reconnectAttempts (cm_state cm) + 1))
          (cm\<lparr>reconnectPending := False\<rparr>)
      else cm)"

definition resetReconnectAttempts :: "ConnectionManager \<Rightarrow> ConnectionManager" where
  "resetReconnectAttempts cm =
     cm\<lparr>cm_state := (cm_state cm)\<lparr> cm_reconnectAttempts := 0,
                                      reconnectDelay := baseReconnectDelay (cm_state cm) \<rparr>\<rparr>"

definition cm_destroy :: "ConnectionManager \<Rightarrow> ConnectionManager" where
  "cm_destroy cm = stopReconnectTimer (stopHealthCheck cm)"

text \<open>
  A run of consecutive failed attempts: each entry gives the error, the instant and
  the random number of one call of \<open>onConnectionFailure\<close>.
\<close>

fun failedAttempts :: "(thrown \<times> int \<times> real) list \<Rightarrow> ConnectionManager \<Rightarrow> ConnectionManager" where
  "failedAttempts [] cm = cm"
| "failedAttempts ((err, now, rnd) # rest) cm =
     failedAttempts rest (snd (onConnectionFailure err now rnd cm))"

definition delayAfter :: "ConnectionConfig \<Rightarrow> (thrown \<times> int \<times> real) list \<Rightarrow> nat \<Rightarrow> real" where
  "delayAfter cfg fs k =
     reconnectDelay (cm_state (failedAttempts (take k fs) (new_ConnectionManager cfg ''conn_1'')))"

subsection \<open>Concrete configurations\<close>

text \<open>
  The configuration that \<open>ServerOrchestrator\<close> passes, one whose base delay lies above
  the cap, and one whose base delay is negative.
\<close>

definition orchestratorConnectionConfig :: ConnectionConfig where
  "orchestratorConnectionConfig =
     \<lparr> cfg_maxReconnectAttempts = 10, cfg_baseReconnectDelay = 2000,
       cfg_maxReconnectDelay = 30000, cfg_healthCheckInterval = 5000, connectionTimeout = 10000 \<rparr>"

definition cappedBelowBaseConfig :: ConnectionConfig where
  "cappedBelowBaseConfig =
     \<lparr> cfg_maxReconnectAttempts = 10, cfg_baseReconnectDelay = 50000,
       cfg_maxReconnectDelay = 30000, cfg_healthCheckInterval = 5000, connectionTimeout = 10000 \<rparr>"

definition negativeBaseConfig :: ConnectionConfig where
  "negativeBaseConfig =
     \<lparr> cfg_maxReconnectAttempts = 10, cfg_baseReconnectDelay = - 100,
       cfg_maxReconnectDelay = 30000, cfg_healthCheckInterval = 5000, connectionTimeout = 10000 \<rparr>"

definition refused :: thrown where
  "refused = ErrorObject ''Connection timeout''"

text \<open>Two failed attempts with random numbers 1/2 and 1/4.\<close>

definition exampleFailures :: "(thrown \<times> int \<times> real) list" where
  "exampleFailures = [(refused, 1000, 1 / 2), (refused, 4000, 1 / 4)]"

section \<open>Workflow orchestration\<close>

subsection \<open>Data model\<close>

record WorkflowStep =
  step_id :: string
  step_name :: string
  workflowFile :: string
  parameters :: "(string \<times> string) list option"
  dependencies :: "string list option"
  condition :: "string option"
  retryCount :: int
  step_timeout :: "int option"
  onSuccess :: "string list option"
  onFailure :: "string list option"

datatype failureStrategy_t = Stop | Continue | Retry

record WorkflowChain =
  chain_id :: string
  chain_name :: string
  description :: string
  steps :: "WorkflowStep list"
  globalParameters :: "(string \<times> string) list option"
  maxConcurrency :: int
  failureStrategy :: failureStrategy_t
  created :: int
  lastExecuted :: "int option"

datatype execution_status = Running | Completed | Failed | Paused

record step_success =
  promptId :: string
  queueNumber :: int
  clientId :: string
  ss_timestamp :: int

text \<open>
  \<open>stepResults\<close> and \<open>globalVariables\<close> are objects used as maps: association lists in
  insertion order, in which an assignment to a key that is present replaces its
  value (\<open>AList.update\<close>).  \<open>{...a, ...b}\<close> assigns the entries of \<open>b\<close> onto a copy of \<open>a\<close>.
\<close>

definition spread :: "('k \<times> 'v) list \<Rightarrow> ('k \<times> 'v) list \<Rightarrow> ('k \<times> 'v) list" where
  "spread a b = foldl (\<lambda>m (k, v). AList.update k v m) a b"

record ExecutionContext =
  chainId :: string
  executionId :: string
  currentStep :: int
  stepResults :: "(string \<times> (thrown + step_success)) list"
  globalVariables :: "(string \<times> string) list"
  ec_startTime :: int
  ec_status :: execution_status

subsection \<open>\<open>resolveDependencies\<close>\<close>

definition canExecute :: "WorkflowStep \<Rightarrow> string set \<Rightarrow> bool" where
  "canExecute step completed =
     (case dependencies step of
        None \<Rightarrow> True
      | Some deps \<Rightarrow> list_all (\<lambda>dep. dep \<in> completed) deps)"

text \<open>
  The inner \<open>for\<close> loop walks \<open>remaining\<close> from its last index down to 0 and splices
  out each step it can execute, which leaves the lower indices in place.  The first
  argument of \<open>scanFromEnd\<close> is the part of the array not yet visited, last element
  first; \<open>kept\<close> collects the steps that stay, in array order.  A step that enters the
  batch is marked completed at once, so a step visited later in the same pass may
  already depend on it.
\<close>

fun scanFromEnd ::
  "WorkflowStep list \<Rightarrow> WorkflowStep list \<Rightarrow> WorkflowStep list \<Rightarrow> string set
     \<Rightarrow> WorkflowStep list \<times> WorkflowStep list \<times> string set" where
  "scanFromEnd [] batch kept completed = (batch, kept, completed)"
| "scanFromEnd (step # earlier) batch kept completed =
     (if canExecute step completed
      then scanFromEnd earlier (batch @ [step]) kept (insert (step_id step) completed)
      else scanFromEnd earlier batch (step # kept) completed)"

lemma scanFromEnd_length:
  "scanFromEnd todo batch kept completed = (batch', kept', completed') \<Longrightarrow>
   length batch' + length kept' = length todo + length batch + length kept"
  by (induction todo arbitrary: batch kept completed) (auto split: if_splits)

definition circularDependency :: thrown where
  "circularDependency = ErrorObject ''Circular dependency detected in workflow steps''"

function resolveLoop ::
  "WorkflowStep list \<Rightarrow> string set \<Rightarrow> WorkflowStep list list \<Rightarrow> thrown + WorkflowStep list list" where
  "resolveLoop remaining completed resolved =
     (if remaining = [] then Inr resolved
      else
        (case scanFromEnd (rev remaining) [] [] completed of
           (batch, kept, completed') \<Rightarrow>
             if batch = [] \<and> kept \<noteq> [] then Inl circularDependency
             else resolveLoop kept completed' (if batch \<noteq> [] then resolved @ [batch] else resolved)))"
  by pat_completeness auto
termination
proof (relation "measure (\<lambda>(remaining, completed, resolved). length remaining)")
  show "wf (measure (\<lambda>(remaining, completed, resolved). length remaining))"
    by simp
next
  fix remaining :: "WorkflowStep list" and completed :: "string set"
    and resolved :: "WorkflowStep list list" and x batch y kept completed'
  assume "remaining \<noteq> []" and "(batch, y) = scanFromEnd (rev remaining) [] [] completed"
    and "(kept, completed') = y" and "\<not> (batch = [] \<and> kept \<noteq> [])"
  then have "scanFromEnd (rev remaining) [] [] completed = (batch, kept, completed')"
    and "batch \<noteq> [] \<or> kept = []" and "remaining \<noteq> []"
    by auto
  then show "((kept, completed', if batch \<noteq> [] then resolved @ [batch] else resolved),
              remaining, completed, resolved)
             \<in> measure (\<lambda>(remaining, completed, resolved). length remaining)"
    using scanFromEnd_length [of "rev remaining" "[]" "[]" completed batch kept completed']
    by (cases batch) auto
qed

declare resolveLoop.simps [simp del]

definition resolveDependencies :: "WorkflowStep list \<Rightarrow> thrown + WorkflowStep list list" where
  "resolveDependencies stepList = resolveLoop stepList {} []"

subsection \<open>\<open>execute_workflow_chain\<close>\<close>

text \<open>
  A tool result: what its text reports, and the \<open>isError\<close> flag.  \<open>ExecutionFailed m\<close>
  is the text \<open>Failed to execute workflow chain: m\<close>.
\<close>

datatype tool_content =
    ChainNotFound string
  | ExecutionPlan "string list list" nat "(string \<times> string) list"
  | ExecutionResults string execution_status nat nat "(string \<times> (thrown + string)) list"
  | ExecutionFailed string

record ToolResult =
  content :: tool_content
  isError :: bool

text \<open>
  The module's two maps, and a log of the steps handed to \<open>executeWorkflowStep\<close>, in
  the order in which they are started.
\<close>

record wf_state =
  workflowChains :: "string \<rightharpoonup> WorkflowChain"
  activeExecutions :: "string \<rightharpoonup> ExecutionContext"
  startedSteps :: "string list"

text \<open>\<open>error instanceof Error ? error.message : String(error)\<close>.\<close>

fun errorMsg :: "thrown \<Rightarrow> string" where
  "errorMsg (ErrorObject m) = m"
| "errorMsg (NoMessage txt) = txt"
| "errorMsg Nullish = ''undefined''"

text \<open>
  The results of one batch are processed in order; under \<open>stop\<close> the first rejection
  marks the run failed and leaves the loop.
\<close>

fun processBatchResults ::
  "failureStrategy_t \<Rightarrow> (WorkflowStep \<times> (thrown + step_success)) list \<Rightarrow> ExecutionContext
     \<Rightarrow> (string \<times> (thrown + string)) list \<Rightarrow> nat
     \<Rightarrow> ExecutionContext \<times> (string \<times> (thrown + string)) list \<times> nat" where
  "processBatchResults strategy [] ctx results totalSteps = (ctx, results, totalSteps)"
| "processBatchResults strategy ((step, Inr v) # rest) ctx results totalSteps =
     processBatchResults strategy rest
       (ctx\<lparr>stepResults := AList.update (step_id step) (Inr v) (stepResults ctx)\<rparr>)
       (results @ [(step_name step, Inr (promptId v))]) (Suc totalSteps)"
| "processBatchResults strategy ((step, Inl reason) # rest) ctx results totalSteps =
     (let ctx1 = ctx\<lparr>stepResults := AList.update (step_id step) (Inl reason) (stepResults ctx)\<rparr>;
          results1 = results @ [(step_name step, Inl reason)]
      in if strategy = Stop then (ctx1\<lparr>ec_status := Failed\<rparr>, results1, Suc totalSteps)
         else processBatchResults strategy rest ctx1 results1 (Suc totalSteps))"

text \<open>
  The batches run one after the other.  All steps of a batch are started before any
  of them settles (\<open>Promise.allSettled\<close>); \<open>runStep\<close> gives what each step settles with.
\<close>

fun executeBatches ::
  "(WorkflowStep \<Rightarrow> thrown + step_success) \<Rightarrow> failureStrategy_t \<Rightarrow> WorkflowStep list list
     \<Rightarrow> ExecutionContext \<Rightarrow> (string \<times> (thrown + string)) list \<Rightarrow> nat \<Rightarrow> string list
     \<Rightarrow> ExecutionContext \<times> (string \<times> (thrown + string)) list \<times> nat \<times> string list" where
  "executeBatches runStep strategy [] ctx results totalSteps started =
     (ctx, results, totalSteps, started)"
| "executeBatches runStep strategy (batch # later) ctx results totalSteps started =
     (case processBatchResults strategy (map (\<lambda>step. (step, runStep step)) batch)
             ctx results totalSteps of
        (ctx1, results1, total1) \<Rightarrow>
          if ec_status ctx1 = Failed \<and> strategy = Stop
          then (ctx1, results1, total1, started @ map step_id batch)
          else executeBatches runStep strategy later ctx1 results1 total1
                 (started @ map step_id batch))"

definition execute_workflow_chain ::
  "(WorkflowStep \<Rightarrow> thrown + step_success) \<Rightarrow> string \<Rightarrow> int \<Rightarrow> int \<Rightarrow> string
     \<Rightarrow> (string \<times> string) list \<Rightarrow> bool \<Rightarrow> wf_state \<Rightarrow> ToolResult \<times> wf_state" where
  "execute_workflow_chain runStep newExecutionId startedAt finishedAt cid runtimeParameters dryRun st =
     (case workflowChains st cid of
        None \<Rightarrow> (\<lparr> content = ChainNotFound cid, isError = True \<rparr>, st)
      | Some chain \<Rightarrow>
          (let ctx = \<lparr> chainId = cid, executionId = newExecutionId, currentStep = 0,
                       stepResults = [],
                       globalVariables =
                         spread (case globalParameters chain of None \<Rightarrow> [] | Some g \<Rightarrow> spread [] g)
                           runtimeParameters,
                       ec_startTime = startedAt, ec_status = Running \<rparr>
           in case resolveDependencies (steps chain) of
                Inl err \<Rightarrow> (\<lparr> content = ExecutionFailed (errorMsg err), isError = True \<rparr>, st)
              | Inr executionBatches \<Rightarrow>
                  if dryRun then
                    (\<lparr> content = ExecutionPlan (map (map step_name) executionBatches)
                                    (length (steps chain)) (globalVariables ctx),
                       isError = False \<rparr>, st)
                  else
                    (case executeBatches runStep (failureStrategy chain) executionBatches ctx [] 0
                            (startedSteps st) of
                       (ctx1, results, totalSteps, started) \<Rightarrow>
                         (let ctx2 = ctx1\<lparr>ec_status :=
                                       (if ec_status ctx1 = Running then Completed else ec_status ctx1)\<rparr>
                          in (\<lparr> content = ExecutionResults newExecutionId (ec_status ctx2) totalSteps
                                              (length (steps chain)) results,
                                isError = False \<rparr>,
                              st\<lparr> workflowChains :=
                                     (workflowChains st)(cid \<mapsto> chain\<lparr>lastExecuted := Some finishedAt\<rparr>),
                                  activeExecutions := (activeExecutions st)(newExecutionId \<mapsto> ctx2),
                                  startedSteps := started \<rparr>)))))"

subsection \<open>Dependency cycles\<close>

text \<open>
  \<open>dependsOn a b\<close>: step \<open>a\<close> lists the id of step \<open>b\<close>.  A dependency cycle is a
  non-empty sequence of steps in which each one depends on the next and the last one
  on the first.
\<close>

definition dependsOn :: "WorkflowStep \<Rightarrow> WorkflowStep \<Rightarrow> bool" where
  "dependsOn a b = (case dependencies a of None \<Rightarrow> False | Some deps \<Rightarrow> step_id b \<in> set deps)"

definition dependencyCycle :: "WorkflowStep list \<Rightarrow> bool" where
  "dependencyCycle cyc =
     (cyc \<noteq> [] \<and>
      list_all (\<lambda>i. dependsOn (cyc ! i) (cyc ! (Suc i mod length cyc))) [0 ..< length cyc])"

subsection \<open>Concrete chains\<close>

definition plainStep :: "string \<Rightarrow> string list option \<Rightarrow> WorkflowStep" where
  "plainStep i deps =
     \<lparr> step_id = i, step_name = ''step '' @ i, workflowFile = i @ ''.json'', parameters = None,
       dependencies = deps, condition = None, retryCount = 0, step_timeout = None,
       onSuccess = None, onFailure = None \<rparr>"

definition chainOf :: "WorkflowStep list \<Rightarrow> WorkflowChain" where
  "chainOf ss =
     \<lparr> chain_id = ''chain-1'', chain_name = ''example'', description = ''example chain'',
       steps = ss, globalParameters = None, maxConcurrency = 1, failureStrategy = Stop,
       created = 0, lastExecuted = None \<rparr>"

definition storeWith :: "WorkflowStep list \<Rightarrow> wf_state" where
  "storeWith ss =
     \<lparr> workflowChains = [''chain-1'' \<mapsto> chainOf ss], activeExecutions = Map.empty,
       startedSteps = [] \<rparr>"

definition alwaysQueued :: "WorkflowStep \<Rightarrow> thrown + step_success" where
  "alwaysQueued step =
     Inr \<lparr> promptId = ''prompt-'' @ step_id step, queueNumber = 1, clientId = ''client'',
           ss_timestamp = 0 \<rparr>"

section \<open>ProcessManager\<close>

subsection \<open>Data model\<close>

datatype proc_status = ProcRunning | ProcStopped | ProcError | ProcStarting | ProcStopping

record ProcessInfo =
  pid :: nat
  name :: string
  commandLine :: string
  status :: proc_status
  pi_startTime :: "int option"
  endTime :: "int option"
  restartCount :: nat
  pi_lastError :: "string option"

record ProcessConfig =
  pc_name :: string
  command :: string
  args :: "string list option"
  workingDirectory :: "string option"
  environment :: "(string \<times> string) list option"
  pc_autoRestart :: "bool option"
  maxRestarts :: "nat option"
  restartDelay :: "nat option"
  killTimeout :: "nat option"
  healthCheckUrl :: "string option"
  pc_healthCheckInterval :: "nat option"

datatype signal_t = SIGTERM | SIGKILL

text \<open>
  What \<open>spawn\<close> does: it throws, or it returns a child, whose \<open>pid\<close> is undefined when
  the command could not be started.
\<close>

datatype spawn_result = SpawnThrows string | Spawned "nat option"

text \<open>
  \<open>ProcessInfo\<close> objects are shared: the registry maps a name to an object, and the
  handlers attached to a child process and the callback of a restart timer keep the
  object they were created with.  So the objects live in a store, \<open>heap\<close>, addressed
  by their index, and the registry \<open>processes\<close> maps names to addresses.  A child
  process is the index into \<open>children\<close>, which keeps what the child's \<open>exit\<close> and
  \<open>error\<close> handlers closed over: the name, the address of the \<open>ProcessInfo\<close> and the
  config.
\<close>

datatype pm_timer =
    RestartTimer string nat ProcessConfig
  | HealthTimer string ProcessConfig
  | KillTimer string nat

datatype pm_event =
    ProcessStarted string nat
  | ProcessExited string "int option" "string option"
  | ProcessError string string
  | ProcessStopped string
  | HealthCheckPassed string
  | HealthCheckFailed string

record ProcessManager =
  processes :: "(string \<times> nat) list"
  childProcesses :: "(string \<times> nat) list"
  configs :: "(string \<times> ProcessConfig) list"
  healthCheckTimers :: "(string \<times> nat) list"
  restartTimers :: "(string \<times> nat) list"
  heap :: "ProcessInfo list"
  children :: "(string \<times> nat \<times> ProcessConfig) list"
  pm_timers :: "(nat \<times> pm_timer) list"
  pm_nextHandle :: nat
  signals :: "(nat \<times> signal_t) list"
  pm_emitted :: "pm_event list"

definition new_ProcessManager :: ProcessManager where
  "new_ProcessManager =
     \<lparr> processes = [], childProcesses = [], configs = [],
       healthCheckTimers = [], restartTimers = [], heap = [], children = [],
       pm_timers = [], pm_nextHandle = 0, signals = [], pm_emitted = [] \<rparr>"

definition pm_emit :: "pm_event \<Rightarrow> ProcessManager \<Rightarrow> ProcessManager" where
  "pm_emit e pm = pm\<lparr>pm_emitted := pm_emitted pm @ [e]\<rparr>"

definition pm_setTimer :: "pm_timer \<Rightarrow> ProcessManager \<Rightarrow> nat \<times> ProcessManager" where
  "pm_setTimer t pm =
     (pm_nextHandle pm,
      pm\<lparr>pm_timers := pm_timers pm @ [(pm_nextHandle pm, t)],
         pm_nextHandle := Suc (pm_nextHandle pm)\<rparr>)"

definition pm_clearTimer :: "nat \<Rightarrow> ProcessManager \<Rightarrow> ProcessManager" where
  "pm_clearTimer h pm = pm\<lparr>pm_timers := filter (\<lambda>(h', _). h' \<noteq> h) (pm_timers pm)\<rparr>"

text \<open>\<open>Array.prototype.join\<close>.\<close>

fun joinWith :: "string \<Rightarrow> string list \<Rightarrow> string" where
  "joinWith sep [] = []"
| "joinWith sep [x] = x"
| "joinWith sep (x # y # rest) = x @ sep @ joinWith sep (y # rest)"

definition modifyInfo :: "nat \<Rightarrow> (ProcessInfo \<Rightarrow> ProcessInfo) \<Rightarrow> ProcessManager \<Rightarrow> ProcessManager" where
  "modifyInfo addr f pm = pm\<lparr>heap := (heap pm)[addr := f (heap pm ! addr)]\<rparr>"

subsection \<open>Starting and the handlers of a child\<close>

definition pm_startHealthCheck :: "string \<Rightarrow> ProcessManager \<Rightarrow> ProcessManager" where
  "pm_startHealthCheck n pm =
     (case map_of (configs pm) n of
        None \<Rightarrow> pm
      | Some cfg \<Rightarrow>
          (case pm_setTimer (HealthTimer n cfg) pm of
             (h, pm') \<Rightarrow> pm'\<lparr>healthCheckTimers := AList.update n h (healthCheckTimers pm')\<rparr>))"

definition pm_stopHealthCheck :: "string \<Rightarrow> ProcessManager \<Rightarrow> ProcessManager" where
  "pm_stopHealthCheck n pm =
     (case map_of (healthCheckTimers pm) n of
        None \<Rightarrow> pm
      | Some h \<Rightarrow> (pm_clearTimer h pm)\<lparr>healthCheckTimers := AList.delete n (healthCheckTimers pm)\<rparr>)"

text \<open>The \<open>catch\<close> block of \<open>startProcess\<close>.\<close>

definition startFailed :: "string \<Rightarrow> string \<Rightarrow> int \<Rightarrow> ProcessManager \<Rightarrow> ProcessManager" where
  "startFailed n message now pm =
     pm_emit (ProcessError n message)
       (case map_of (processes pm) n of
          None \<Rightarrow> pm
        | Some addr \<Rightarrow>
            modifyInfo addr
              (\<lambda>i. i\<lparr>status := ProcError, pi_lastError := Some message, endTime := Some now\<rparr>) pm)"

text \<open>
  \<open>startProcess\<close>; \<open>spawned\<close> is what \<open>spawn\<close> does.  Unless the process is registered
  as running, the method builds a new \<open>ProcessInfo\<close> object and stores it under the
  name; the only value taken over from the object registered before is
  \<open>restartCount\<close>.
\<close>

definition startProcess ::
  "ProcessConfig \<Rightarrow> spawn_result \<Rightarrow> int \<Rightarrow> ProcessManager \<Rightarrow> bool \<times> ProcessManager" where
  "startProcess cfg spawned now pm =
     (if (case map_of (processes pm) (pc_name cfg) of
            None \<Rightarrow> False
          | Some addr \<Rightarrow> status (heap pm ! addr) = ProcRunning)
      then (True, pm)
      else
        (let processInfo =
               \<lparr> pid = 0, name = pc_name cfg,
                 commandLine = command cfg @ '' '' @
                   (case args cfg of None \<Rightarrow> [] | Some as \<Rightarrow> joinWith '' '' as),
                 status = ProcStarting, pi_startTime = Some now, endTime = None,
                 restartCount =
                   (case map_of (processes pm) (pc_name cfg) of
                      None \<Rightarrow> 0
                    | Some addr \<Rightarrow> restartCount (heap pm ! addr)),
                 pi_lastError = None \<rparr>;
             addr = length (heap pm);
             pm1 = pm\<lparr> configs := AList.update (pc_name cfg) cfg (configs pm),
                       heap := heap pm @ [processInfo],
                       processes := AList.update (pc_name cfg) addr (processes pm) \<rparr>
         in case spawned of
              SpawnThrows message \<Rightarrow> (False, startFailed (pc_name cfg) message now pm1)
            | Spawned None \<Rightarrow>
                (False,
                 startFailed (pc_name cfg) ''Failed to start process - no PID assigned'' now pm1)
            | Spawned (Some p) \<Rightarrow>
                if p \<noteq> 0 then
                  (let child = length (children pm1);
                       pm2 = (modifyInfo addr (\<lambda>i. i\<lparr>pid := p, status := ProcRunning\<rparr>) pm1)
                               \<lparr> childProcesses := AList.update (pc_name cfg) child (childProcesses pm1),
                                 children := children pm1 @ [(pc_name cfg, addr, cfg)] \<rparr>;
                       pm3 = (if (case healthCheckUrl cfg of None \<Rightarrow> False | Some u \<Rightarrow> u \<noteq> []) \<and>
                                 (case pc_healthCheckInterval cfg of None \<Rightarrow> False | Some d \<Rightarrow> d \<noteq> 0)
                              then pm_startHealthCheck (pc_name cfg) pm2 else pm2)
                   in (True, pm_emit (ProcessStarted (pc_name cfg) addr) pm3))
                else
                  (False,
                   startFailed (pc_name cfg) ''Failed to start process - no PID assigned'' now
                     pm1)))"

text \<open>
  \<open>scheduleRestart\<close> closes over the config and the \<open>ProcessInfo\<close> registered under the
  name at that moment.
\<close>

definition scheduleRestart :: "string \<Rightarrow> ProcessManager \<Rightarrow> ProcessManager" where
  "scheduleRestart n pm =
     (case (map_of (configs pm) n, map_of (processes pm) n) of
        (Some cfg, Some addr) \<Rightarrow>
          (case pm_setTimer (RestartTimer n addr cfg) pm of
             (h, pm') \<Rightarrow> pm'\<lparr>restartTimers := AList.update n h (restartTimers pm')\<rparr>)
      | _ \<Rightarrow> pm)"

text \<open>The \<open>exit\<close> and \<open>error\<close> handlers of child \<open>c\<close>.\<close>

definition childExit :: "nat \<Rightarrow> int option \<Rightarrow> string option \<Rightarrow> int \<Rightarrow> ProcessManager \<Rightarrow> ProcessManager" where
  "childExit c code sig now pm =
     (if c < length (children pm) then
        (case children pm ! c of
           (n, addr, cfg) \<Rightarrow>
             (let pm1 = modifyInfo addr (\<lambda>i. i\<lparr>status := ProcStopped, endTime := Some now\<rparr>) pm;
                  pm2 = pm_stopHealthCheck n pm1;
                  pm3 = pm2\<lparr>childProcesses := AList.delete n (childProcesses pm2)\<rparr>;
                  pm4 = pm_emit (ProcessExited n code sig) pm3
              in if pc_autoRestart cfg = Some True \<and>
                    restartCount (heap pm4 ! addr) <
                      (case maxRestarts cfg of None \<Rightarrow> 5 | Some m \<Rightarrow> if m = 0 then 5 else m)
                 then scheduleRestart n pm4 else pm4))
      else pm)"

definition childError :: "nat \<Rightarrow> string \<Rightarrow> int \<Rightarrow> ProcessManager \<Rightarrow> ProcessManager" where
  "childError c message now pm =
     (if c < length (children pm) then
        (case children pm ! c of
           (n, addr, cfg) \<Rightarrow>
             pm_emit (ProcessError n message)
               (modifyInfo addr
                  (\<lambda>i. i\<lparr>status := ProcError, pi_lastError := Some message, endTime := Some now\<rparr>) pm))
      else pm)"

text \<open>
  The callback of a restart timer: it counts the restart on the object it closed
  over, calls \<open>startProcess\<close> and forgets the timer.
\<close>

definition restartTimerFires :: "nat \<Rightarrow> spawn_result \<Rightarrow> int \<Rightarrow> ProcessManager \<Rightarrow> ProcessManager" where
  "restartTimerFires h spawned now pm =
     (case map_of (pm_timers pm) h of
        Some (RestartTimer n addr cfg) \<Rightarrow>
          (let pm1 = pm_clearTimer h pm;
               pm2 = modifyInfo addr (\<lambda>i. i\<lparr>restartCount := restartCount i + 1\<rparr>) pm1;
               pm3 = snd (startProcess cfg spawned now pm2)
           in pm3\<lparr>restartTimers := AList.delete n (restartTimers pm3)\<rparr>)
      | _ \<Rightarrow> pm)"

subsection \<open>Stopping\<close>

text \<open>
  \<open>stopProcess\<close> up to its wait: it marks the process as stopping, cancels the health
  check and a pending restart, and signals the child.  It then polls until the
  child's \<open>exit\<close> handler has removed the child from \<open>childProcesses\<close>, and completes
  with \<open>stopProcessCompletes\<close>.  Neither part takes anything out of \<open>processes\<close>.
\<close>

definition stopProcess :: "string \<Rightarrow> bool \<Rightarrow> ProcessManager \<Rightarrow> ProcessManager" where
  "stopProcess n force pm =
     (case (map_of (processes pm) n, map_of (childProcesses pm) n) of
        (Some addr, Some child) \<Rightarrow>
          (let pm1 = modifyInfo addr (\<lambda>i. i\<lparr>status := ProcStopping\<rparr>) pm;
               pm2 = pm_stopHealthCheck n pm1;
               pm3 = (case map_of (restartTimers pm2) n of
                        None \<Rightarrow> pm2
                      | Some h \<Rightarrow> (pm_clearTimer h pm2)\<lparr>restartTimers := AList.delete n (restartTimers pm2)\<rparr>)
           in if force then pm3\<lparr>signals := signals pm3 @ [(child, SIGKILL)]\<rparr>
              else snd (pm_setTimer (KillTimer n child)
                          (pm3\<lparr>signals := signals pm3 @ [(child, SIGTERM)]\<rparr>)))
      | _ \<Rightarrow> pm)"

definition stopProcessCompletes :: "string \<Rightarrow> ProcessManager \<Rightarrow> ProcessManager" where
  "stopProcessCompletes n pm =
     (if map_of (childProcesses pm) n = None then pm_emit (ProcessStopped n) pm else pm)"

definition killTimerFires :: "nat \<Rightarrow> ProcessManager \<Rightarrow> ProcessManager" where
  "killTimerFires h pm =
     (case map_of (pm_timers pm) h of
        Some (KillTimer n child) \<Rightarrow>
          (let pm1 = pm_clearTimer h pm
           in if map_of (childProcesses pm1) n \<noteq> None then pm1\<lparr>signals := signals pm1 @ [(child, SIGKILL)]\<rparr>
              else pm1)
      | _ \<Rightarrow> pm)"

text \<open>
  One tick of a health-check interval; \<open>ok\<close> is the outcome of the probe.  On a
  failure of a process with \<open>autoRestart\<close> the callback calls \<open>restartProcess\<close>, which is
  \<open>stopProcess\<close>, a pause and \<open>startProcess\<close>: those are steps of their own here.
\<close>

definition healthTimerTick :: "nat \<Rightarrow> bool \<Rightarrow> ProcessManager \<Rightarrow> ProcessManager" where
  "healthTimerTick h ok pm =
     (case map_of (pm_timers pm) h of
        Some (HealthTimer n cfg) \<Rightarrow>
          pm_emit (if ok then HealthCheckPassed n else HealthCheckFailed n) pm
      | _ \<Rightarrow> pm)"

text \<open>
  \<open>cleanup\<close> (also run by \<open>destroy\<close>) cancels every health-check and restart timer and
  calls \<open>stopProcess(name, true)\<close> for every registered name.
\<close>

definition cleanup :: "ProcessManager \<Rightarrow> ProcessManager" where
  "cleanup pm =
     (let cancelled = map snd (healthCheckTimers pm) @ map snd (restartTimers pm);
          pm1 = pm\<lparr> pm_timers := filter (\<lambda>(h, _). h \<notin> set cancelled) (pm_timers pm),
                    healthCheckTimers := [], restartTimers := [] \<rparr>
      in foldl (\<lambda>p n. stopProcess n True p) pm1 (map fst (processes pm)))"

text \<open>
  \<open>killAllComfyUIProcesses\<close> acts on the manager only through \<open>stopProcess(name, true)\<close>,
  which it calls and awaits in turn for the registered processes whose name or
  command line names ComfyUI; the sweeps that follow run operating-system commands.
\<close>

definition killTargets :: "ProcessManager \<Rightarrow> string list" where
  "killTargets pm =
     map fst (filter (\<lambda>(n, addr). str_includes (toLowerCase n) ''comfyui'' \<or>
                                   str_includes (commandLine (heap pm ! addr)) ''ComfyUI'')
                (processes pm))"

subsection \<open>Runs\<close>

text \<open>
  Every way in which the manager's state changes: a call of a public method, a
  timer callback, or an event of a child process.  \<open>restartProcess\<close> (\<open>stopProcess\<close>,
  a pause, \<open>startProcess\<close>), \<open>killAllComfyUIProcesses\<close> and \<open>destroy\<close> (\<open>cleanup\<close>) are
  sequences of these.
\<close>

datatype pm_action =
    StartProcess ProcessConfig spawn_result int
  | StopProcess string bool
  | StopProcessCompletes string
  | ChildExit nat "int option" "string option" int
  | ChildError nat string int
  | RestartTimerFires nat spawn_result int
  | KillTimerFires nat
  | HealthTimerTick nat bool
  | Cleanup

fun pm_step :: "pm_action \<Rightarrow> ProcessManager \<Rightarrow> ProcessManager" where
  "pm_step (StartProcess cfg spawned now) pm = snd (startProcess cfg spawned now pm)"
| "pm_step (StopProcess n force) pm = stopProcess n force pm"
| "pm_step (StopProcessCompletes n) pm = stopProcessCompletes n pm"
| "pm_step (ChildExit c code sig now) pm = childExit c code sig now pm"
| "pm_step (ChildError c message now) pm = childError c message now pm"
| "pm_step (RestartTimerFires h spawned now) pm = restartTimerFires h spawned now pm"
| "pm_step (KillTimerFires h) pm = killTimerFires h pm"
| "pm_step (HealthTimerTick h ok) pm = healthTimerTick h ok pm"
| "pm_step Cleanup pm = cleanup pm"

fun pm_run :: "pm_action list \<Rightarrow> ProcessManager \<Rightarrow> ProcessManager" where
  "pm_run [] pm = pm"
| "pm_run (a # as) pm = pm_run as (pm_step a pm)"

subsection \<open>A concrete run\<close>

text \<open>
  A supervised process with \<open>autoRestart\<close>: it is started at 1000 (child 0, pid 4242),
  exits at 2000, is restarted by the timer at 7000 (child 1, pid 4343), and is then
  stopped by \<open>stopProcess\<close> (\<open>pmStopping\<close> is the state while it waits), the child
  exiting at 9000.
\<close>

definition comfyConfig :: ProcessConfig where
  "comfyConfig =
     \<lparr> pc_name = ''comfyui'', command = ''python'', args = Some [''main.py''],
       workingDirectory = None, environment = None, pc_autoRestart = Some True,
       maxRestarts = None, restartDelay = None, killTimeout = None, healthCheckUrl = None,
       pc_healthCheckInterval = None \<rparr>"

definition pmStarted :: ProcessManager where
  "pmStarted = pm_run [StartProcess comfyConfig (Spawned (Some 4242)) 1000] new_ProcessManager"

definition pmExited :: ProcessManager where
  "pmExited = pm_run [ChildExit 0 (Some 1) None 2000] pmStarted"

definition pmRestarted :: ProcessManager where
  "pmRestarted = pm_run [RestartTimerFires 0 (Spawned (Some 4343)) 7000] pmExited"

text \<open>
  The same process started again by a call of \<open>startProcess\<close> at 3000, while the
  restart timer set at 2000 is pending, and the timer firing at 7000.
\<close>

definition pmStartedAgain :: ProcessManager where
  "pmStartedAgain = pm_run [StartProcess comfyConfig (Spawned (Some 4444)) 3000] pmExited"

definition pmLateTimer :: ProcessManager where
  "pmLateTimer = pm_run [RestartTimerFires 0 (Spawned (Some 4343)) 7000] pmStartedAgain"

definition pmStopping :: ProcessManager where
  "pmStopping = pm_run [StopProcess ''comfyui'' False] pmRestarted"

definition pmStopped :: ProcessManager where
  "pmStopped =
     pm_run [StopProcess ''comfyui'' False, ChildExit 1 None (Some ''SIGTERM'') 9000,
             StopProcessCompletes ''comfyui''] pmRestarted"

chapter \<open>Verification\<close>

section \<open>StateManager: basic facts\<close>

lemma jsonDate_idem: "jsonDate (jsonDate d) = jsonDate d"
  by (cases d) simp_all

lemma jsonClone_idem: "jsonClone (jsonClone s) = jsonClone s"
  by (simp add: jsonClone_def jsonDate_idem option.map_comp comp_def)

lemma jsonClone_sessionId: "sessionId (jsonClone s) = sessionId s"
  by (simp add: jsonClone_def)

lemma instant_jsonDate: "instant (jsonDate d) = instant d"
  by (cases d) simp_all

lemma deepEqual_jsonClone: "deepEqual (jsonClone s) s"
  by (simp add: deepEqual_def jsonClone_def same_instant_def same_instant_opt_def
      instant_jsonDate option.map_comp comp_def)

lemma deepEqual_sessionId: "deepEqual s t \<Longrightarrow> sessionId s = sessionId t"
proof -
  assume "deepEqual s t"
  then have e: "s\<lparr> startTime := startTime t,
         lastActivity := lastActivity t,
         connectionState := (connectionState s)
           \<lparr> lastConnected := lastConnected (connectionState t),
             lastDisconnected := lastDisconnected (connectionState t) \<rparr>,
         processState := (processState s)\<lparr> lastCleanup := lastCleanup (processState t) \<rparr>,
         healthState := (healthState s)\<lparr> lastHealthCheck := lastHealthCheck (healthState t) \<rparr>,
         toolState := (toolState s)\<lparr> lastToolCall := lastToolCall (toolState t) \<rparr>,
         errorState := (errorState s)\<lparr> lastError := lastError (errorState t) \<rparr> \<rparr> = t"
    by (simp add: deepEqual_def)
  show "sessionId s = sessionId t"
    using arg_cong [OF e, of sessionId] by simp
qed

lemma triggerAutoSave_keeps [simp]:
  "currentState (triggerAutoSave sm) = currentState sm"
  "snapshots (triggerAutoSave sm) = snapshots sm"
  "emitted (triggerAutoSave sm) = emitted sm"
  "config (triggerAutoSave sm) = config sm"
  by (simp_all add: triggerAutoSave_def setTimer_def clearTimeout_def Let_def split: option.splits)

lemma new_StateManager_fields [simp]:
  "currentState (new_StateManager cfg disk sid now) = createInitialState sid now"
  "snapshots (new_StateManager cfg disk sid now) = []"
  "emitted (new_StateManager cfg disk sid now) = []"
  "config (new_StateManager cfg disk sid now) = cfg"
  by (simp_all add: new_StateManager_def startSnapshotTimer_def startAutoSave_def setTimer_def Let_def)

lemma createInitialState_sessionId [simp]: "sessionId (createInitialState sid now) = sid"
  by (simp add: createInitialState_def)

lemma createInitialState_lastActivity [simp]:
  "lastActivity (createInitialState sid now) = DateObj now"
  by (simp add: createInitialState_def)

lemma resetState_fields [simp]:
  "sessionId (currentState (resetState p sid now sm)) = sid"
  "snapshots (resetState p sid now sm) = snapshots sm"
  by (simp_all add: resetState_def Let_def emit_def split: option.splits)

lemma smA_timers:
  "activeTimers smA =
     [(0, \<lparr>t_kind = Interval, t_delay = 30000, t_callback = SnapshotTick\<rparr>),
      (1, \<lparr>t_kind = Interval, t_delay = 10000, t_callback = PeriodicSave\<rparr>)]"
  "autoSaveTimer smA = Some 1"
  "nextHandle smA = 2"
  by (simp_all add: smA_def exampleConfig_def new_StateManager_def startSnapshotTimer_def
      startAutoSave_def setTimer_def Let_def)

lemma smB_snapshots: "snapshots smB = [fst (createSnapshot exampleJson 2000 smA)]"
  by (simp add: smB_def createSnapshot_def Let_def emit_def smA_def exampleConfig_def)

section \<open>StateManager: snapshots\<close>

text \<open>
  C10.  For every index that is negative or not less than the number of stored
  snapshots, \<open>restoreFromSnapshot\<close> returns false and returns the state manager as it
  was: current state, snapshot buffer, timers and event log are all unchanged.
\<close>

theorem restoreFromSnapshot_rejects_out_of_range:
  "i < 0 \<or> real (length (snapshots sm)) \<le> i \<Longrightarrow> restoreFromSnapshot i sm = (False, sm)"
  by (simp add: restoreFromSnapshot_def)

theorem restoreFromSnapshot_rejects_out_of_range_witness:
  "((-1 :: real) < 0 \<or> real (length (snapshots smA)) \<le> -1) \<and>
   restoreFromSnapshot (-1) smA = (False, smA) \<and>
   ((1 :: real) < 0 \<or> real (length (snapshots smB)) \<le> 1) \<and>
   restoreFromSnapshot 1 smB = (False, smB)"
  using restoreFromSnapshot_rejects_out_of_range [of "-1" smA]
    restoreFromSnapshot_rejects_out_of_range [of 1 smB]
  by (simp add: smB_snapshots)

text \<open>
  C6, as the claim states it, fails: a restore does alter \<open>sessionId\<close>.  In the run
  below a snapshot is taken under session \<open>session_A\<close>, \<open>resetState\<close> then issues
  \<open>session_B\<close>, and restoring the snapshot (still at index 0) returns true and leaves the
  current state with \<open>session_A\<close>, not with the id it had before the restore.
\<close>

theorem restoreFromSnapshot_alters_sessionId:
  "snapshots smB ! 0 = fst (createSnapshot exampleJson 2000 smA) \<and>
   sessionId (currentState smB) = ''session_B'' \<and>
   fst (restoreFromSnapshot 0 smB) \<and>
   sessionId (currentState (snd (restoreFromSnapshot 0 smB))) = ''session_A'' \<and>
   sessionId (currentState (snd (restoreFromSnapshot 0 smB))) \<noteq> sessionId (currentState smB)"
proof -
  have 1: "sessionId (currentState smB) = ''session_B''"
    by (simp add: smB_def)
  have 2: "sessionId (state (fst (createSnapshot exampleJson 2000 smA))) = ''session_A''"
    by (simp add: createSnapshot_def Let_def jsonClone_sessionId smA_def)
  show ?thesis
    using 1 2 by (simp add: smB_snapshots restoreFromSnapshot_def Let_def emit_def jsonClone_sessionId)
qed

text \<open>
  C6, amended.  Let \<open>S\<close> be the snapshot that \<open>createSnapshot\<close> made from the state
  \<open>\<sigma> = currentState sm\<close>, and let \<open>sm2\<close> be any later state manager that still holds \<open>S\<close>
  at index \<open>i\<close>.  Then \<open>restoreFromSnapshot(i)\<close> returns true and makes the current state
  equal to \<open>\<sigma>\<close> in every field, with no exception for \<open>sessionId\<close>: the session id
  after the restore is the one \<open>\<sigma>\<close> carried, and the one that was current before the
  restore only appears in the \<open>stateRestored\<close> event.  Date-valued fields are compared
  by the instant they denote (\<open>same_instant\<close>); which representation they have after
  the restore is not part of the statement.  Nothing but the current state and the
  event log changes.
\<close>

theorem restoreFromSnapshot_roundtrip:
  assumes "createSnapshot json now sm = (S, sm')"
    and "i < length (snapshots sm2)"
    and "snapshots sm2 ! i = S"
  shows "fst (restoreFromSnapshot (real i) sm2) \<and>
         deepEqual (currentState (snd (restoreFromSnapshot (real i) sm2))) (currentState sm) \<and>
         sessionId (currentState (snd (restoreFromSnapshot (real i) sm2))) = sessionId (currentState sm) \<and>
         snd (restoreFromSnapshot (real i) sm2) =
           sm2\<lparr> currentState := currentState (snd (restoreFromSnapshot (real i) sm2)),
                emitted := emitted sm2 @
                  [StateRestored (sessionId (currentState sm2)) (sessionId (currentState sm)) S] \<rparr>"
proof -
  from assms(1) have S: "state S = jsonClone (currentState sm)"
    by (auto simp: createSnapshot_def Let_def)
  have r: "restoreFromSnapshot (real i) sm2 =
           (True, sm2\<lparr> currentState := jsonClone (currentState sm),
                       emitted := emitted sm2 @
                         [StateRestored (sessionId (currentState sm2))
                            (sessionId (currentState sm)) S] \<rparr>)"
    using assms(2,3) S
    by (simp add: restoreFromSnapshot_def Let_def emit_def jsonClone_idem jsonClone_sessionId)
  show ?thesis
    by (simp add: r deepEqual_jsonClone jsonClone_sessionId)
qed

theorem restoreFromSnapshot_roundtrip_witness:
  "createSnapshot exampleJson 2000 smA =
     (fst (createSnapshot exampleJson 2000 smA), snd (createSnapshot exampleJson 2000 smA)) \<and>
   0 < length (snapshots smB) \<and>
   snapshots smB ! 0 = fst (createSnapshot exampleJson 2000 smA) \<and>
   fst (restoreFromSnapshot (real 0) smB) \<and>
   deepEqual (currentState (snd (restoreFromSnapshot (real 0) smB))) (currentState smA) \<and>
   sessionId (currentState (snd (restoreFromSnapshot (real 0) smB))) = ''session_A'' \<and>
   emitted (snd (restoreFromSnapshot (real 0) smB)) =
     emitted smB @ [StateRestored ''session_B'' ''session_A'' (fst (createSnapshot exampleJson 2000 smA))]"
proof -
  have s: "sessionId (currentState smA) = ''session_A''" "sessionId (currentState smB) = ''session_B''"
    by (simp_all add: smA_def smB_def)
  have h: "createSnapshot exampleJson 2000 smA =
      (fst (createSnapshot exampleJson 2000 smA), snd (createSnapshot exampleJson 2000 smA))"
    "0 < length (snapshots smB)"
    "snapshots smB ! 0 = fst (createSnapshot exampleJson 2000 smA)"
    by (simp_all add: smB_snapshots)
  let ?r = "restoreFromSnapshot (real 0) smB"
  from restoreFromSnapshot_roundtrip [OF h]
  have c: "fst ?r" "deepEqual (currentState (snd ?r)) (currentState smA)"
    "sessionId (currentState (snd ?r)) = sessionId (currentState smA)"
    "snd ?r = smB\<lparr> currentState := currentState (snd ?r),
                emitted := emitted smB @
                  [StateRestored (sessionId (currentState smB)) (sessionId (currentState smA))
                     (fst (createSnapshot exampleJson 2000 smA))] \<rparr>"
    by blast+
  have e: "emitted (snd ?r) = emitted smB @
      [StateRestored ''session_B'' ''session_A'' (fst (createSnapshot exampleJson 2000 smA))]"
    using arg_cong [OF c(4), of emitted] by (simp add: s)
  show ?thesis
    using h c(1,2) c(3) e by (simp add: s)
qed

section \<open>StateManager: the save timers\<close>

text \<open>
  C7.  The claim does not hold of the code.  \<open>startAutoSave\<close> keeps the handle of the
  10-second interval in \<open>autoSaveTimer\<close>, and \<open>triggerAutoSave\<close> passes whatever that
  field holds to \<open>clearTimeout\<close> before it stores the handle of its own 2-second timeout
  there.  The first mutation therefore cancels the periodic save: after it the only
  active timers are the snapshot interval and the debounced timeout, and once that
  timeout has fired only the snapshot interval is left.
\<close>

theorem first_mutation_cancels_periodic_save:
  "periodicSaveActive smA \<and>
   \<not> periodicSaveActive (updateConnectionState [Set_isConnected True] 1500 smA) \<and>
   activeTimers (updateConnectionState [Set_isConnected True] 1500 smA) =
     [(0, \<lparr>t_kind = Interval, t_delay = 30000, t_callback = SnapshotTick\<rparr>),
      (2, \<lparr>t_kind = Timeout, t_delay = 2000, t_callback = DebouncedSave\<rparr>)] \<and>
   activeTimers (fireTimer 2 exampleJson True 3500
       (updateConnectionState [Set_isConnected True] 1500 smA)) =
     [(0, \<lparr>t_kind = Interval, t_delay = 30000, t_callback = SnapshotTick\<rparr>)]"
proof -
  have cfg: "autoSave (config smA)" "persistState (config smA)"
    by (simp_all add: smA_def exampleConfig_def)
  have t: "activeTimers (updateConnectionState [Set_isConnected True] 1500 smA) =
     [(0, \<lparr>t_kind = Interval, t_delay = 30000, t_callback = SnapshotTick\<rparr>),
      (2, \<lparr>t_kind = Timeout, t_delay = 2000, t_callback = DebouncedSave\<rparr>)]"
    using cfg
    by (simp add: updateConnectionState_def triggerAutoSave_def Let_def emit_def setTimer_def
        clearTimeout_def smA_timers)
  have f: "activeTimers (fireTimer 2 exampleJson True 3500
       (updateConnectionState [Set_isConnected True] 1500 smA)) =
     [(0, \<lparr>t_kind = Interval, t_delay = 30000, t_callback = SnapshotTick\<rparr>)]"
    by (simp add: fireTimer_def t runCallback_def saveState_def emit_def clearTimeout_def)
  show ?thesis
    using t f by (simp add: periodicSaveActive_def smA_timers)
qed

section \<open>StateManager: activity tracking\<close>

text \<open>
  C8.  The claim does not hold of \<open>addActiveOperation\<close> and \<open>removeActiveOperation\<close>.
  Both change \<open>toolState.activeOperations\<close> and emit their event, but unlike every
  other mutator they neither assign \<open>lastActivity\<close> nor call \<open>triggerAutoSave\<close>: on a
  manager whose last activity was at 1000, the operation is added and removed with
  \<open>lastActivity\<close> still at 1000 and no save scheduled, whereas \<open>recordToolCall\<close> at 5000
  moves \<open>lastActivity\<close> to 5000.
\<close>

theorem activeOperation_mutators_skip_lastActivity:
  "lastActivity (currentState smA) = DateObj 1000 \<and>
   activeOperations (toolState (currentState (addActiveOperation ''tool_op_5000'' smA))) =
     [''tool_op_5000''] \<and>
   emitted (addActiveOperation ''tool_op_5000'' smA) = [OperationStarted ''tool_op_5000''] \<and>
   lastActivity (currentState (addActiveOperation ''tool_op_5000'' smA)) = DateObj 1000 \<and>
   activeTimers (addActiveOperation ''tool_op_5000'' smA) = activeTimers smA \<and>
   activeOperations (toolState (currentState
       (removeActiveOperation ''tool_op_5000'' (addActiveOperation ''tool_op_5000'' smA)))) = [] \<and>
   lastActivity (currentState
       (removeActiveOperation ''tool_op_5000'' (addActiveOperation ''tool_op_5000'' smA))) =
     DateObj 1000 \<and>
   activeTimers (removeActiveOperation ''tool_op_5000'' (addActiveOperation ''tool_op_5000'' smA)) =
     activeTimers smA \<and>
   lastActivity (currentState (recordToolCall ''tool'' True 5000 smA)) = DateObj 5000"
proof -
  have ops: "activeOperations (toolState (currentState smA)) = []"
    by (simp add: smA_def createInitialState_def)
  have add: "addActiveOperation ''tool_op_5000'' smA =
      emit (OperationStarted ''tool_op_5000'')
        (smA\<lparr>currentState := (currentState smA)
           \<lparr>toolState := (toolState (currentState smA))\<lparr>activeOperations := [''tool_op_5000'']\<rparr>\<rparr>\<rparr>)"
    by (simp add: addActiveOperation_def Let_def ops)
  have la: "lastActivity (currentState smA) = DateObj 1000"
    by (simp add: smA_def)
  have em: "emitted smA = []"
    by (simp add: smA_def)
  show ?thesis
    by (simp add: add la em emit_def removeActiveOperation_def Let_def recordToolCall_def touch_def)
qed

section \<open>ServerOrchestrator: retry after recovery\<close>

lemma invocations_le_2: "fst (snd (executeWithRecovery h op tool executor md s)) \<le> 2"
  by (auto simp: executeWithRecovery_def Let_def split: prod.splits sum.splits option.splits)

lemma recordFailure_ErrorObject: "fst (recordFailure opId tool (ErrorObject m) s) = None"
  by (simp add: recordFailure_def recordError_def Let_def split: option.splits prod.splits)


lemma withStateManager_world [simp]:
  "world (withStateManager f s) = world s" "clock (withStateManager f s) = clock s"
  by (simp_all add: withStateManager_def split: option.splits)

lemma recordFailure_world [simp]:
  "world (snd (recordFailure opId tool err s)) = world s"
  "clock (snd (recordFailure opId tool err s)) = clock s"
  by (simp_all add: recordFailure_def split: option.splits prod.splits)

lemma example_stages:
  obtains s1 s2 s3 ctx s4 where
    "s1 = withStateManager (\<lambda>now sm. recordToolCall ''comfyui'' True now
      (addActiveOperation (''comfyui'' @ ''_'' @ ''queue_prompt'' @ ''_'' @
         numberToString (clock exampleOrchestrator)) sm)) exampleOrchestrator"
    "exampleExecutor s1 = (Inl (ErrorObject ''Connection refused''), s2)"
    "recordFailure (''comfyui'' @ ''_'' @ ''queue_prompt'' @ ''_'' @
         numberToString (clock exampleOrchestrator)) ''comfyui''
         (ErrorObject ''Connection refused'') s2 = (None, s3)"
    "createErrorContext ''queue_prompt'' ''comfyui'' (ErrorObject ''Connection refused'')
      Medium [] (clock s3) = Inr ctx"
    "exampleHandler r ctx s3 = (Inr r, s4)"
    "exampleExecutor s4 = (Inl (ErrorObject ''queue is full''), s4\<lparr>world := 2, clock := clock s4 + 10\<rparr>)"
proof -
  define opId where
    "opId = ''comfyui'' @ ''_'' @ ''queue_prompt'' @ ''_'' @ numberToString (clock exampleOrchestrator)"
  define s1 where "s1 = withStateManager (\<lambda>now sm. recordToolCall ''comfyui'' True now
              (addActiveOperation opId sm)) exampleOrchestrator"
  define s2 where "s2 = snd (exampleExecutor s1)"
  define s3 where "s3 = snd (recordFailure opId ''comfyui'' (ErrorObject ''Connection refused'') s2)"
  define ctx where "ctx = \<lparr> operation = ''queue_prompt'', toolName = ''comfyui'',
       ec_timestamp = clock s3, error = ErrorObject ''Connection refused'', severity = Medium,
       recoverable = matchesRecoverablePattern ''Connection refused'', metadata = [] \<rparr>"
  define s4 where "s4 = snd (exampleHandler r ctx s3)"
  have w1: "world s1 = 0"
    by (simp add: s1_def exampleOrchestrator_def)
  have a1: "s1 = withStateManager (\<lambda>now sm. recordToolCall ''comfyui'' True now
      (addActiveOperation (''comfyui'' @ ''_'' @ ''queue_prompt'' @ ''_'' @
         numberToString (clock exampleOrchestrator)) sm)) exampleOrchestrator"
    by (simp only: s1_def opId_def)
  have a2: "exampleExecutor s1 = (Inl (ErrorObject ''Connection refused''), s2)"
    by (simp add: s2_def exampleExecutor_def w1)
  have a3: "recordFailure (''comfyui'' @ ''_'' @ ''queue_prompt'' @ ''_'' @
         numberToString (clock exampleOrchestrator)) ''comfyui''
         (ErrorObject ''Connection refused'') s2 = (None, s3)"
    using recordFailure_ErrorObject [of opId "''comfyui''" "''Connection refused''" s2]
    by (simp only: s3_def opId_def prod_eq_iff fst_conv snd_conv simp_thms)
  have a4: "createErrorContext ''queue_prompt'' ''comfyui'' (ErrorObject ''Connection refused'')
      Medium [] (clock s3) = Inr ctx"
    by (simp add: createErrorContext_def isRecoverable_def ctx_def)
  have a5: "exampleHandler r ctx s3 = (Inr r, s4)"
    by (simp add: s4_def exampleHandler_def)
  have w4: "world s4 = 1"
    by (simp add: s4_def exampleHandler_def s3_def s2_def exampleExecutor_def w1)
  have a6: "exampleExecutor s4 =
      (Inl (ErrorObject ''queue is full''), s4\<lparr>world := 2, clock := clock s4 + 10\<rparr>)"
    by (simp add: exampleExecutor_def w4)
  show thesis
    using that [OF a1 a2 a3 a4 a5 a6] .
qed

text \<open>
  C1.  Let the first invocation of the executor reject with \<open>err\<close>, and let
  \<open>handleError\<close> be reached (the failure is recorded and the error context is built)
  and report \<open>recovered\<close>.  If it reports success, the executor is invoked once more,
  two invocations in all: a rejection of that second invocation is the outcome,
  unchanged, and a value is returned after one more \<open>recordToolCall\<close>.  If it reports
  failure, the outcome is the original \<open>err\<close> after a single invocation.  Here \<open>s1\<close> to
  \<open>s4\<close> are the states between the steps.
\<close>

theorem executeWithRecovery_retries_once:
  assumes "s1 = withStateManager (\<lambda>now sm. recordToolCall tool True now
              (addActiveOperation (tool @ ''_'' @ op @ ''_'' @ numberToString (clock s)) sm)) s"
    and "executor s1 = (Inl err, s2)"
    and "recordFailure (tool @ ''_'' @ op @ ''_'' @ numberToString (clock s)) tool err s2 = (None, s3)"
    and "createErrorContext op tool err Medium md (clock s3) = Inr context"
    and "handleError context s3 = (Inr recovered, s4)"
  shows "(recovered \<longrightarrow>
            (case executor s4 of
               (Inl retryError, s5) \<Rightarrow>
                 executeWithRecovery (Some handleError) op tool executor md s = (Inl retryError, 2, s5)
             | (Inr result, s5) \<Rightarrow>
                 executeWithRecovery (Some handleError) op tool executor md s =
                   (Inr result, 2, withStateManager (\<lambda>now. recordToolCall tool True now) s5))) \<and>
         (\<not> recovered \<longrightarrow>
            executeWithRecovery (Some handleError) op tool executor md s = (Inl err, 1, s4))"
  using assms
  by (auto simp: executeWithRecovery_def Let_def split: prod.splits sum.splits)

theorem executeWithRecovery_retries_once_witness:
  "fst (executeWithRecovery (Some (exampleHandler True)) ''queue_prompt'' ''comfyui''
          exampleExecutor [] exampleOrchestrator) = Inl (ErrorObject ''queue is full'') \<and>
   fst (snd (executeWithRecovery (Some (exampleHandler True)) ''queue_prompt'' ''comfyui''
          exampleExecutor [] exampleOrchestrator)) = 2 \<and>
   fst (executeWithRecovery (Some (exampleHandler False)) ''queue_prompt'' ''comfyui''
          exampleExecutor [] exampleOrchestrator) = Inl (ErrorObject ''Connection refused'') \<and>
   fst (snd (executeWithRecovery (Some (exampleHandler False)) ''queue_prompt'' ''comfyui''
          exampleExecutor [] exampleOrchestrator)) = 1"
proof -
  obtain s1 s2 s3 ctx s4 where a:
    "s1 = withStateManager (\<lambda>now sm. recordToolCall ''comfyui'' True now
      (addActiveOperation (''comfyui'' @ ''_'' @ ''queue_prompt'' @ ''_'' @
         numberToString (clock exampleOrchestrator)) sm)) exampleOrchestrator"
    "exampleExecutor s1 = (Inl (ErrorObject ''Connection refused''), s2)"
    "recordFailure (''comfyui'' @ ''_'' @ ''queue_prompt'' @ ''_'' @
         numberToString (clock exampleOrchestrator)) ''comfyui''
         (ErrorObject ''Connection refused'') s2 = (None, s3)"
    "createErrorContext ''queue_prompt'' ''comfyui'' (ErrorObject ''Connection refused'')
      Medium [] (clock s3) = Inr ctx"
    "exampleHandler True ctx s3 = (Inr True, s4)"
    "exampleExecutor s4 = (Inl (ErrorObject ''queue is full''), s4\<lparr>world := 2, clock := clock s4 + 10\<rparr>)"
    by (rule example_stages [of True])
  obtain t1 t2 t3 ctx' t4 where b:
    "t1 = withStateManager (\<lambda>now sm. recordToolCall ''comfyui'' True now
      (addActiveOperation (''comfyui'' @ ''_'' @ ''queue_prompt'' @ ''_'' @
         numberToString (clock exampleOrchestrator)) sm)) exampleOrchestrator"
    "exampleExecutor t1 = (Inl (ErrorObject ''Connection refused''), t2)"
    "recordFailure (''comfyui'' @ ''_'' @ ''queue_prompt'' @ ''_'' @
         numberToString (clock exampleOrchestrator)) ''comfyui''
         (ErrorObject ''Connection refused'') t2 = (None, t3)"
    "createErrorContext ''queue_prompt'' ''comfyui'' (ErrorObject ''Connection refused'')
      Medium [] (clock t3) = Inr ctx'"
    "exampleHandler False ctx' t3 = (Inr False, t4)"
    by (rule example_stages [of False])
  from executeWithRecovery_retries_once [where executor = exampleExecutor
      and handleError = "exampleHandler True" and tool = "''comfyui''" and op = "''queue_prompt''"
      and s = exampleOrchestrator, OF a(1-5)]
  have 1: "executeWithRecovery (Some (exampleHandler True)) ''queue_prompt'' ''comfyui''
          exampleExecutor [] exampleOrchestrator =
        (Inl (ErrorObject ''queue is full''), 2, s4\<lparr>world := 2, clock := clock s4 + 10\<rparr>)"
    by (simp add: a(6))
  from executeWithRecovery_retries_once [where executor = exampleExecutor
      and handleError = "exampleHandler False" and tool = "''comfyui''" and op = "''queue_prompt''"
      and s = exampleOrchestrator, OF b(1-5)]
  have 2: "executeWithRecovery (Some (exampleHandler False)) ''queue_prompt'' ''comfyui''
          exampleExecutor [] exampleOrchestrator = (Inl (ErrorObject ''Connection refused''), 1, t4)"
    by simp
  show ?thesis
    by (simp add: 1 2)
qed

section \<open>HealthMonitor: reporting a status change\<close>

lemma analyze_after_store:
  "filter isStatusChange (hm_emitted (analyzeHealthStatus m (hm\<lparr>lastHealthMetrics := Some m, healthHistory := h\<rparr>)))
     = filter isStatusChange (hm_emitted hm)"
  by (simp add: analyzeHealthStatus_def Let_def hm_emit_def)

lemma performHealthCheck_never_reports_change:
  "filter isStatusChange (hm_emitted (performHealthCheck c hm)) = filter isStatusChange (hm_emitted hm)"
  by (cases c) (simp_all add: performHealthCheck_def Let_def hm_emit_def analyze_after_store)

lemma performHealthCheck_last:
  "lastHealthMetrics (performHealthCheck (Inr r) hm) = Some (collectHealthMetrics (hm_config hm) r)"
  "hm_config (performHealthCheck c hm) = hm_config hm"
  by (simp_all add: performHealthCheck_def analyzeHealthStatus_def Let_def hm_emit_def split: sum.splits)

lemma overall_up: "hm_overallHealth (collectHealthMetrics exampleMonitorConfig readingsUp) = Healthy"
  by (simp add: collectHealthMetrics_def exampleMonitorConfig_def readingsUp_def
      calculateHealthScore_def truthyAnd_def mathRound_def determineOverallHealth_def Let_def)

lemma overall_down: "hm_overallHealth (collectHealthMetrics exampleMonitorConfig readingsDown) = Degraded"
  by (simp add: collectHealthMetrics_def exampleMonitorConfig_def readingsDown_def
      calculateHealthScore_def truthyAnd_def mathRound_def determineOverallHealth_def Let_def
      getEmptySystemHealth_def getEmptyProcessHealth_def)

text \<open>
  C2.  The claim does not hold of the code.  \<open>performHealthCheck\<close> assigns the new
  metrics to \<open>lastHealthMetrics\<close> before it calls \<open>analyzeHealthStatus\<close>, which reads
  the previous status from that same field: the two statuses it compares are always
  equal, and \<open>healthStatusChanged\<close> is never emitted.  In the run below the first check
  is \<open>healthy\<close> and the next one \<open>degraded\<close>, and the event log holds no
  \<open>healthStatusChanged\<close>.
\<close>

theorem status_change_not_emitted:
  "map_option hm_overallHealth (lastHealthMetrics monitorAfterUp) = Some Healthy \<and>
   map_option hm_overallHealth (lastHealthMetrics monitorAfterDown) = Some Degraded \<and>
   filter isStatusChange (hm_emitted monitorAfterDown) = []"
proof -
  have c: "hm_config monitorAfterUp = exampleMonitorConfig"
    by (simp add: monitorAfterUp_def performHealthCheck_last new_HealthMonitor_def)
  have e: "filter isStatusChange (hm_emitted monitorAfterDown) = []"
    by (simp only: monitorAfterDown_def monitorAfterUp_def performHealthCheck_never_reports_change)
      (simp add: new_HealthMonitor_def)
  have u: "map_option hm_overallHealth (lastHealthMetrics monitorAfterUp) = Some Healthy"
    by (simp add: monitorAfterUp_def performHealthCheck_last new_HealthMonitor_def overall_up)
  have d: "map_option hm_overallHealth (lastHealthMetrics monitorAfterDown) = Some Degraded"
    by (simp add: monitorAfterDown_def performHealthCheck_last c overall_down)
  show ?thesis
    by (intro conjI) (rule u, rule d, rule e)
qed

section \<open>ConnectionManager: reconnect backoff\<close>

lemma onConnectionFailure_scheduled:
  "err \<noteq> Nullish \<Longrightarrow>
   cm_reconnectAttempts (cm_state cm) + 1 < maxReconnectAttempts (cm_state cm) \<Longrightarrow>
   cm_state (snd (onConnectionFailure err now rnd cm)) =
     (cm_state cm)\<lparr> cm_isConnected := False, cm_lastDisconnected := Some now,
        cm_reconnectAttempts := cm_reconnectAttempts (cm_state cm) + 1, isHealthy := False,
        reconnectDelay := min (reconnectDelay (cm_state cm) * 2 + rnd * 1000) (maxReconnectDelay (cm_state cm)) \<rparr>"
  by (simp add: onConnectionFailure_def scheduleReconnect_def cm_emit_def Let_def)

lemma onConnectionFailure_Nullish:
  "onConnectionFailure Nullish now rnd cm =
     (Some runtimeTypeError,
      cm\<lparr>cm_state := (cm_state cm)\<lparr> cm_isConnected := False, cm_lastDisconnected := Some now,
        cm_reconnectAttempts := cm_reconnectAttempts (cm_state cm) + 1, isHealthy := False \<rparr>\<rparr>)"
  by (simp add: onConnectionFailure_def Let_def)

lemma failedAttempts_append:
  "failedAttempts (fs @ gs) cm = failedAttempts gs (failedAttempts fs cm)"
  by (induction fs arbitrary: cm) auto

lemma failedAttempts_frame:
  "maxReconnectAttempts (cm_state (failedAttempts fs cm)) = maxReconnectAttempts (cm_state cm) \<and>
   maxReconnectDelay (cm_state (failedAttempts fs cm)) = maxReconnectDelay (cm_state cm) \<and>
   cm_reconnectAttempts (cm_state (failedAttempts fs cm)) = cm_reconnectAttempts (cm_state cm) + int (length fs)"
proof (induction fs arbitrary: cm)
  case Nil
  show ?case by simp
next
  case (Cons f fs)
  obtain err now rnd where f: "f = (err, now, rnd)" by (cases f)
  let ?cm' = "snd (onConnectionFailure err now rnd cm)"
  have "maxReconnectAttempts (cm_state ?cm') = maxReconnectAttempts (cm_state cm)"
    "maxReconnectDelay (cm_state ?cm') = maxReconnectDelay (cm_state cm)"
    "cm_reconnectAttempts (cm_state ?cm') = cm_reconnectAttempts (cm_state cm) + 1"
    by (simp_all add: onConnectionFailure_def scheduleReconnect_def cm_emit_def Let_def)
  with Cons.IH [of ?cm'] show ?case
    by (simp add: f)
qed

lemma delay_step:
  assumes "k < length fs" and "int (length fs) < cfg_maxReconnectAttempts cfg"
    and "fst (fs ! k) \<noteq> Nullish"
  shows "delayAfter cfg fs (Suc k) =
           min (delayAfter cfg fs k * 2 + snd (snd (fs ! k)) * 1000) (cfg_maxReconnectDelay cfg)"
proof -
  let ?cm = "failedAttempts (take k fs) (new_ConnectionManager cfg ''conn_1'')"
  obtain err now rnd where f: "fs ! k = (err, now, rnd)" by (cases "fs ! k")
  have ne: "err \<noteq> Nullish" using assms(3) f by simp
  have t: "take (Suc k) fs = take k fs @ [(err, now, rnd)]"
    using assms(1) f by (simp add: take_Suc_conv_app_nth)
  have fr: "maxReconnectAttempts (cm_state ?cm) = cfg_maxReconnectAttempts cfg"
    "maxReconnectDelay (cm_state ?cm) = cfg_maxReconnectDelay cfg"
    "cm_reconnectAttempts (cm_state ?cm) = int k"
    using failedAttempts_frame [of "take k fs" "new_ConnectionManager cfg ''conn_1''"] assms(1)
    by (simp_all add: new_ConnectionManager_def)
  have "cm_reconnectAttempts (cm_state ?cm) + 1 < maxReconnectAttempts (cm_state ?cm)"
    using fr assms by simp
  from onConnectionFailure_scheduled [OF ne this, of now rnd]
  show ?thesis
    by (simp add: delayAfter_def t failedAttempts_append fr f)
qed

lemma delay_bounds:
  assumes "0 \<le> cfg_baseReconnectDelay cfg" "cfg_baseReconnectDelay cfg \<le> cfg_maxReconnectDelay cfg"
    and "int (length fs) < cfg_maxReconnectAttempts cfg"
    and "\<forall>f \<in> set fs. fst f \<noteq> Nullish \<and> 0 \<le> snd (snd f)"
    and "k \<le> length fs"
  shows "0 \<le> delayAfter cfg fs k \<and> delayAfter cfg fs k \<le> cfg_maxReconnectDelay cfg"
  using assms(5)
proof (induction k)
  case 0
  then show ?case using assms(1,2) by (simp add: delayAfter_def new_ConnectionManager_def)
next
  case (Suc k)
  then have k: "k < length fs" by simp
  have j: "fst (fs ! k) \<noteq> Nullish" "0 \<le> snd (snd (fs ! k))" using assms(4) k by simp_all
  with Suc.IH k assms(1,2) show ?case
    by (simp add: delay_step [OF k assms(3) j(1)] min_def)
qed

lemma delay_values:
  "delayAfter orchestratorConnectionConfig exampleFailures 0 = 2000"
  "delayAfter orchestratorConnectionConfig exampleFailures (Suc 0) = 4500"
  "delayAfter orchestratorConnectionConfig exampleFailures (Suc (Suc 0)) = 9250"
  by (simp_all add: delayAfter_def orchestratorConnectionConfig_def exampleFailures_def refused_def
      new_ConnectionManager_def onConnectionFailure_def scheduleReconnect_def cm_emit_def Let_def)

text \<open>
  C3, as the claim states it, fails in three ways.

  \<^item> The base delay may lie above the cap, which the constructor accepts: with
    \<open>baseReconnectDelay = 50000\<close> and \<open>maxReconnectDelay = 30000\<close> the delay starts at
    50000, above the cap, and the first failure lowers it to 30000.
  \<^item> The base delay may be negative, which the constructor accepts as well: with
    \<open>baseReconnectDelay = -100\<close> and a random number 0 the first failure takes the
    delay from -100 to -200.
  \<^item> A connection handler may reject with \<open>undefined\<close> or \<open>null\<close>.  Then the log line
    of \<open>onConnectionFailure\<close> raises a \<open>TypeError\<close> before \<open>scheduleReconnect\<close> is
    reached: \<open>connect\<close> rejects, the attempt is counted, no event is emitted, no timer
    is set, and the delay stays at 2000 where the rule of the claim asks for a value
    in \<open>[4000, 5000)\<close>.
\<close>

theorem reconnectDelay_not_always_backoff:
  "int (length [(refused, 1000 :: int, 0 :: real)]) < cfg_maxReconnectAttempts cappedBelowBaseConfig \<and>
   delayAfter cappedBelowBaseConfig [(refused, 1000, 0)] 0 = 50000 \<and>
   delayAfter cappedBelowBaseConfig [(refused, 1000, 0)] (Suc 0) = 30000 \<and>
   \<not> delayAfter cappedBelowBaseConfig [(refused, 1000, 0)] 0
       \<le> delayAfter cappedBelowBaseConfig [(refused, 1000, 0)] (Suc 0) \<and>
   \<not> delayAfter cappedBelowBaseConfig [(refused, 1000, 0)] 0
       \<le> cfg_maxReconnectDelay cappedBelowBaseConfig \<and>
   int (length [(refused, 1000 :: int, 0 :: real)]) < cfg_maxReconnectAttempts negativeBaseConfig \<and>
   cfg_baseReconnectDelay negativeBaseConfig \<le> cfg_maxReconnectDelay negativeBaseConfig \<and>
   delayAfter negativeBaseConfig [(refused, 1000, 0)] 0 = - 100 \<and>
   delayAfter negativeBaseConfig [(refused, 1000, 0)] (Suc 0) = - 200 \<and>
   \<not> delayAfter negativeBaseConfig [(refused, 1000, 0)] 0
       \<le> delayAfter negativeBaseConfig [(refused, 1000, 0)] (Suc 0) \<and>
   int (length [(Nullish, 1000 :: int, 1 / 2 :: real)]) < cfg_maxReconnectAttempts orchestratorConnectionConfig \<and>
   0 \<le> cfg_baseReconnectDelay orchestratorConnectionConfig \<and>
   cfg_baseReconnectDelay orchestratorConnectionConfig \<le> cfg_maxReconnectDelay orchestratorConnectionConfig \<and>
   delayAfter orchestratorConnectionConfig [(Nullish, 1000, 1 / 2)] 0 = 2000 \<and>
   delayAfter orchestratorConnectionConfig [(Nullish, 1000, 1 / 2)] (Suc 0) = 2000 \<and>
   min (delayAfter orchestratorConnectionConfig [(Nullish, 1000, 1 / 2)] 0 * 2 + 1 / 2 * 1000)
       (cfg_maxReconnectDelay orchestratorConnectionConfig) = 4500 \<and>
   connect (Inl Nullish) 1000 (1 / 2) (new_ConnectionManager orchestratorConnectionConfig ''conn_1'') =
     (Inl runtimeTypeError,
      (new_ConnectionManager orchestratorConnectionConfig ''conn_1'')
        \<lparr>cm_state := (cm_state (new_ConnectionManager orchestratorConnectionConfig ''conn_1''))
           \<lparr> cm_isConnected := False, cm_lastDisconnected := Some 1000,
             cm_reconnectAttempts := 1, isHealthy := False \<rparr>\<rparr>)"
  by (simp add: delayAfter_def cappedBelowBaseConfig_def negativeBaseConfig_def
      orchestratorConnectionConfig_def refused_def connect_def failed_def new_ConnectionManager_def
      onConnectionFailure_def scheduleReconnect_def cm_emit_def Let_def)

text \<open>
  C3, amended.  Provided \<open>0 \<le> baseReconnectDelay \<le> maxReconnectDelay\<close>: for every run
  of \<open>N\<close> consecutive failed attempts with \<open>N\<close> below \<open>maxReconnectAttempts\<close>, each
  failing with a value other than \<open>null\<close> or \<open>undefined\<close>, and random numbers in
  \<open>[0, 1)\<close>, the delay starts at \<open>baseReconnectDelay\<close>, the delay after each failure is
  \<open>min(previousDelay * 2 + jitter, maxReconnectDelay)\<close> with \<open>jitter = rnd * 1000\<close>,
  each delay is at least the one before it, and none exceeds \<open>maxReconnectDelay\<close>.
\<close>

theorem reconnectDelay_backoff:
  assumes "0 \<le> cfg_baseReconnectDelay cfg"
    and "cfg_baseReconnectDelay cfg \<le> cfg_maxReconnectDelay cfg"
    and "int (length fs) < cfg_maxReconnectAttempts cfg"
    and "\<forall>f \<in> set fs. fst f \<noteq> Nullish \<and> 0 \<le> snd (snd f) \<and> snd (snd f) < 1"
    and "k < length fs"
  shows "delayAfter cfg fs 0 = cfg_baseReconnectDelay cfg \<and>
         delayAfter cfg fs (Suc k) =
           min (delayAfter cfg fs k * 2 + snd (snd (fs ! k)) * 1000) (cfg_maxReconnectDelay cfg) \<and>
         delayAfter cfg fs k \<le> delayAfter cfg fs (Suc k) \<and>
         delayAfter cfg fs k \<le> cfg_maxReconnectDelay cfg \<and>
         delayAfter cfg fs (Suc k) \<le> cfg_maxReconnectDelay cfg"
proof -
  have nn: "\<forall>f \<in> set fs. fst f \<noteq> Nullish \<and> 0 \<le> snd (snd f)"
    using assms(4) by simp
  have j: "fst (fs ! k) \<noteq> Nullish" "0 \<le> snd (snd (fs ! k))"
    using nn assms(5) by simp_all
  have step: "delayAfter cfg fs (Suc k) =
           min (delayAfter cfg fs k * 2 + snd (snd (fs ! k)) * 1000) (cfg_maxReconnectDelay cfg)"
    by (rule delay_step [OF assms(5) assms(3) j(1)])
  have b: "0 \<le> delayAfter cfg fs k \<and> delayAfter cfg fs k \<le> cfg_maxReconnectDelay cfg"
    using delay_bounds [OF assms(1) assms(2) assms(3) nn, of k] assms(5) by simp
  have b': "delayAfter cfg fs (Suc k) \<le> cfg_maxReconnectDelay cfg"
    using delay_bounds [OF assms(1) assms(2) assms(3) nn, of "Suc k"] assms(5) by simp
  have z: "delayAfter cfg fs 0 = cfg_baseReconnectDelay cfg"
    by (simp add: delayAfter_def new_ConnectionManager_def)
  have mono: "delayAfter cfg fs k \<le> delayAfter cfg fs (Suc k)"
    using b j(2) by (simp add: step min_def)
  show ?thesis
    using z step mono b b' by simp
qed

theorem reconnectDelay_backoff_witness:
  "0 \<le> cfg_baseReconnectDelay orchestratorConnectionConfig \<and>
   cfg_baseReconnectDelay orchestratorConnectionConfig \<le> cfg_maxReconnectDelay orchestratorConnectionConfig \<and>
   int (length exampleFailures) < cfg_maxReconnectAttempts orchestratorConnectionConfig \<and>
   Suc 0 < length exampleFailures \<and>
   delayAfter orchestratorConnectionConfig exampleFailures 0 = 2000 \<and>
   delayAfter orchestratorConnectionConfig exampleFailures (Suc 0) = 4500 \<and>
   delayAfter orchestratorConnectionConfig exampleFailures (Suc (Suc 0)) = 9250 \<and>
   delayAfter orchestratorConnectionConfig exampleFailures (Suc (Suc 0)) =
     min (delayAfter orchestratorConnectionConfig exampleFailures (Suc 0) * 2 + 1 / 4 * 1000) 30000 \<and>
   delayAfter orchestratorConnectionConfig exampleFailures (Suc 0)
     \<le> delayAfter orchestratorConnectionConfig exampleFailures (Suc (Suc 0)) \<and>
   delayAfter orchestratorConnectionConfig exampleFailures (Suc (Suc 0)) \<le> 30000"
proof -
  have h: "0 \<le> cfg_baseReconnectDelay orchestratorConnectionConfig"
    "cfg_baseReconnectDelay orchestratorConnectionConfig \<le> cfg_maxReconnectDelay orchestratorConnectionConfig"
    "int (length exampleFailures) < cfg_maxReconnectAttempts orchestratorConnectionConfig"
    "\<forall>f \<in> set exampleFailures. fst f \<noteq> Nullish \<and> 0 \<le> snd (snd f) \<and> snd (snd f) < 1"
    "Suc 0 < length exampleFailures"
    by (simp_all add: orchestratorConnectionConfig_def exampleFailures_def refused_def)
  have m: "cfg_maxReconnectDelay orchestratorConnectionConfig = 30000"
    "snd (snd (exampleFailures ! Suc 0)) = 1 / 4"
    by (simp_all add: orchestratorConnectionConfig_def exampleFailures_def)
  from reconnectDelay_backoff [OF h] h show ?thesis
    by (simp add: m delay_values)
qed

section \<open>Workflow orchestration: dependency batches\<close>

lemma scanFromEnd_cycle:
  assumes "\<forall>s \<in> C. \<exists>t \<in> C. dependsOn s t"
    and "C \<subseteq> set todo \<union> set kept"
    and "completed \<inter> step_id ` C = {}"
    and "distinct (map step_id (todo @ kept))"
    and "scanFromEnd todo batch kept completed = (batch', kept', completed')"
  shows "C \<subseteq> set kept' \<and> completed' \<inter> step_id ` C = {} \<and> distinct (map step_id kept')"
  using assms(2-5)
proof (induction todo arbitrary: batch kept completed)
  case Nil
  then show ?case by simp
next
  case (Cons s earlier)
  show ?case
  proof (cases "canExecute s completed")
    case True
    have notin: "s \<notin> C"
    proof
      assume "s \<in> C"
      with assms(1) obtain t where t: "t \<in> C" "dependsOn s t" by blast
      from t(2) obtain deps where d: "dependencies s = Some deps" "step_id t \<in> set deps"
        by (auto simp: dependsOn_def split: option.splits)
      with True have "step_id t \<in> completed"
        by (auto simp: canExecute_def list_all_iff)
      with t(1) Cons.prems(2) show False by blast
    qed
    have sub: "C \<subseteq> set earlier \<union> set kept"
      using Cons.prems(1) notin by auto
    have fresh: "step_id s \<notin> step_id ` C"
      using sub Cons.prems(3) by auto
    have "scanFromEnd earlier (batch @ [s]) kept (insert (step_id s) completed) = (batch', kept', completed')"
      using Cons.prems(4) True by simp
    moreover have "insert (step_id s) completed \<inter> step_id ` C = {}"
      using fresh Cons.prems(2) by auto
    moreover have "distinct (map step_id (earlier @ kept))"
      using Cons.prems(3) by simp
    ultimately show ?thesis
      using Cons.IH [of kept "insert (step_id s) completed" "batch @ [s]"] sub by blast
  next
    case False
    have "scanFromEnd earlier batch (s # kept) completed = (batch', kept', completed')"
      using Cons.prems(4) False by simp
    moreover have "C \<subseteq> set earlier \<union> set (s # kept)"
      using Cons.prems(1) by auto
    moreover have "distinct (map step_id (earlier @ s # kept))"
      using Cons.prems(3) by auto
    ultimately show ?thesis
      using Cons.IH [of "s # kept" completed batch] Cons.prems(2) by blast
  qed
qed

lemma resolveLoop_cycle:
  assumes "\<forall>s \<in> C. \<exists>t \<in> C. dependsOn s t" and "C \<noteq> {}"
  shows "C \<subseteq> set remaining \<Longrightarrow> completed \<inter> step_id ` C = {} \<Longrightarrow>
         distinct (map step_id remaining) \<Longrightarrow>
         resolveLoop remaining completed resolved = Inl circularDependency"
proof (induction remaining completed resolved rule: resolveLoop.induct)
  case (1 remaining completed resolved)
  have ne: "remaining \<noteq> []"
    using "1.prems"(1) assms(2) by auto
  obtain batch kept completed' where sc:
    "scanFromEnd (rev remaining) [] [] completed = (batch, kept, completed')"
    by (cases "scanFromEnd (rev remaining) [] [] completed") auto
  have inv: "C \<subseteq> set kept \<and> completed' \<inter> step_id ` C = {} \<and> distinct (map step_id kept)"
    using scanFromEnd_cycle [OF assms(1) _ "1.prems"(2) _ sc] "1.prems"(1,3)
    by (simp add: rev_map [symmetric])
  then have kne: "kept \<noteq> []"
    using assms(2) by auto
  show ?case
  proof (cases "batch = []")
    case True
    then show ?thesis
      using ne sc kne by (simp add: resolveLoop.simps [of remaining])
  next
    case False
    have "resolveLoop kept completed' (if batch \<noteq> [] then resolved @ [batch] else resolved)
            = Inl circularDependency"
      using "1.IH" [OF ne sc [symmetric] refl _ ] False inv by simp
    then show ?thesis
      using ne sc False by (simp add: resolveLoop.simps [of remaining])
  qed
qed

lemma dependencyCycle_closed:
  assumes "dependencyCycle cyc"
  shows "\<forall>s \<in> set cyc. \<exists>t \<in> set cyc. dependsOn s t"
proof
  fix s assume "s \<in> set cyc"
  then obtain i where i: "i < length cyc" "cyc ! i = s"
    by (auto simp: in_set_conv_nth)
  then have "dependsOn (cyc ! i) (cyc ! (Suc i mod length cyc))"
    using assms by (auto simp: dependencyCycle_def list_all_iff)
  moreover have "cyc ! (Suc i mod length cyc) \<in> set cyc"
  proof (rule nth_mem)
    from i(1) have "0 < length cyc" by auto
    then show "Suc i mod length cyc < length cyc" by (rule mod_less_divisor)
  qed
  ultimately show "\<exists>t \<in> set cyc. dependsOn s t"
    using i by blast
qed

lemma resolveDependencies_cycle:
  assumes "distinct (map step_id ss)" and "dependencyCycle cyc" and "set cyc \<subseteq> set ss"
  shows "resolveDependencies ss = Inl circularDependency"
proof -
  have "set cyc \<noteq> {}" using assms(2) by (simp add: dependencyCycle_def)
  from resolveLoop_cycle [OF dependencyCycle_closed [OF assms(2)] this assms(3) _ assms(1)]
  show ?thesis by (simp add: resolveDependencies_def)
qed

text \<open>
  C5.  For three steps \<open>A\<close> (no dependencies), \<open>B\<close> and \<open>C\<close> (each depending on \<open>A\<close>),
  whatever their other fields, \<open>resolveDependencies\<close> returns exactly two batches: first
  the batch holding only \<open>A\<close>, then the batch holding \<open>C\<close> and \<open>B\<close>.
\<close>

theorem resolveDependencies_fan_out:
  "resolveDependencies
     [a\<lparr>step_id := ''A'', dependencies := None\<rparr>,
      b\<lparr>step_id := ''B'', dependencies := Some [''A'']\<rparr>,
      c\<lparr>step_id := ''C'', dependencies := Some [''A'']\<rparr>] =
   Inr [[a\<lparr>step_id := ''A'', dependencies := None\<rparr>],
        [c\<lparr>step_id := ''C'', dependencies := Some [''A'']\<rparr>,
         b\<lparr>step_id := ''B'', dependencies := Some [''A'']\<rparr>]]"
  by (simp add: resolveDependencies_def resolveLoop.simps canExecute_def)

text \<open>
  C4, as the claim states it, fails when a step id is used twice, which chain
  validation accepts.  The steps \<open>A\<close> (depending on \<open>B\<close>) and \<open>B\<close> (depending on \<open>A\<close>) form a
  cycle; with a third step that is also called \<open>A\<close> and has no dependencies,
  \<open>resolveDependencies\<close> puts all three into one batch and \<open>execute_workflow_chain\<close>
  starts them.
\<close>

theorem cycle_with_reused_id_is_executed:
  "dependencyCycle [plainStep ''A'' (Some [''B'']), plainStep ''B'' (Some [''A''])] \<and>
   set [plainStep ''A'' (Some [''B'']), plainStep ''B'' (Some [''A''])]
     \<subseteq> set [plainStep ''A'' (Some [''B'']), plainStep ''B'' (Some [''A'']), plainStep ''A'' None] \<and>
   resolveDependencies
       [plainStep ''A'' (Some [''B'']), plainStep ''B'' (Some [''A'']), plainStep ''A'' None] =
     Inr [[plainStep ''A'' None, plainStep ''B'' (Some [''A'']), plainStep ''A'' (Some [''B''])]] \<and>
   \<not> isError (fst (execute_workflow_chain alwaysQueued ''exec-1'' 10 20 ''chain-1'' [] False
       (storeWith [plainStep ''A'' (Some [''B'']), plainStep ''B'' (Some [''A'']), plainStep ''A'' None]))) \<and>
   startedSteps (snd (execute_workflow_chain alwaysQueued ''exec-1'' 10 20 ''chain-1'' [] False
       (storeWith [plainStep ''A'' (Some [''B'']), plainStep ''B'' (Some [''A'']), plainStep ''A'' None])))
     = [''A'', ''B'', ''A'']"
proof -
  let ?ss = "[plainStep ''A'' (Some [''B'']), plainStep ''B'' (Some [''A'']), plainStep ''A'' None]"
  have c: "dependencyCycle [plainStep ''A'' (Some [''B'']), plainStep ''B'' (Some [''A''])]"
    by (simp add: dependencyCycle_def dependsOn_def plainStep_def upt_rec)
  have r: "resolveDependencies ?ss =
     Inr [[plainStep ''A'' None, plainStep ''B'' (Some [''A'']), plainStep ''A'' (Some [''B''])]]"
    by (simp add: resolveDependencies_def resolveLoop.simps canExecute_def plainStep_def)
  have s: "steps (chainOf ?ss) = ?ss" "failureStrategy (chainOf ?ss) = Stop"
    by (simp_all add: chainOf_def)
  have i: "step_id (plainStep k d) = k" for k d
    by (simp add: plainStep_def)
  have e: "\<not> isError (fst (execute_workflow_chain alwaysQueued ''exec-1'' 10 20 ''chain-1'' [] False
               (storeWith ?ss))) \<and>
     startedSteps (snd (execute_workflow_chain alwaysQueued ''exec-1'' 10 20 ''chain-1'' [] False
               (storeWith ?ss))) = [''A'', ''B'', ''A'']"
    by (simp add: execute_workflow_chain_def storeWith_def s r Let_def alwaysQueued_def i
        split: prod.splits)
  show ?thesis
    using c r e by simp
qed


text \<open>
  C4, amended.  For every stored chain whose step ids are pairwise distinct and
  whose steps contain a dependency cycle, \<open>resolveDependencies\<close> throws the
  circular-dependency error, and \<open>execute_workflow_chain\<close>, in a dry run or not, returns
  an error result with that message and leaves the module state as it was: no
  execution is registered and no step is started.
\<close>

theorem circular_dependency_rejected:
  assumes "workflowChains st cid = Some chain"
    and "distinct (map step_id (steps chain))"
    and "dependencyCycle cyc"
    and "set cyc \<subseteq> set (steps chain)"
  shows "resolveDependencies (steps chain) = Inl circularDependency \<and>
         execute_workflow_chain runStep newExecutionId startedAt finishedAt cid runtimeParameters dryRun st =
           (\<lparr> content = ExecutionFailed ''Circular dependency detected in workflow steps'',
              isError = True \<rparr>, st)"
proof -
  have r: "resolveDependencies (steps chain) = Inl circularDependency"
    by (rule resolveDependencies_cycle [OF assms(2) assms(3) assms(4)])
  show ?thesis
    using assms(1) r by (simp add: execute_workflow_chain_def Let_def circularDependency_def)
qed

theorem circular_dependency_rejected_witness:
  "workflowChains (storeWith [plainStep ''A'' (Some [''B'']), plainStep ''B'' (Some [''A''])]) ''chain-1''
     = Some (chainOf [plainStep ''A'' (Some [''B'']), plainStep ''B'' (Some [''A''])]) \<and>
   distinct (map step_id (steps (chainOf [plainStep ''A'' (Some [''B'']), plainStep ''B'' (Some [''A''])]))) \<and>
   dependencyCycle [plainStep ''A'' (Some [''B'']), plainStep ''B'' (Some [''A''])] \<and>
   resolveDependencies [plainStep ''A'' (Some [''B'']), plainStep ''B'' (Some [''A''])]
     = Inl circularDependency \<and>
   execute_workflow_chain alwaysQueued ''exec-1'' 10 20 ''chain-1'' [] False
       (storeWith [plainStep ''A'' (Some [''B'']), plainStep ''B'' (Some [''A''])]) =
     (\<lparr> content = ExecutionFailed ''Circular dependency detected in workflow steps'',
        isError = True \<rparr>,
      storeWith [plainStep ''A'' (Some [''B'']), plainStep ''B'' (Some [''A''])]) \<and>
   startedSteps (snd (execute_workflow_chain alwaysQueued ''exec-1'' 10 20 ''chain-1'' [] False
       (storeWith [plainStep ''A'' (Some [''B'']), plainStep ''B'' (Some [''A''])]))) = []"
proof -
  let ?ss = "[plainStep ''A'' (Some [''B'']), plainStep ''B'' (Some [''A''])]"
  have 1: "workflowChains (storeWith ?ss) ''chain-1'' = Some (chainOf ?ss)"
    by (simp add: storeWith_def)
  have 2: "distinct (map step_id (steps (chainOf ?ss)))"
    by (simp add: chainOf_def plainStep_def)
  have 3: "dependencyCycle ?ss"
    by (simp add: dependencyCycle_def dependsOn_def plainStep_def upt_rec)
  have 4: "set ?ss \<subseteq> set (steps (chainOf ?ss))"
    by (simp add: chainOf_def)
  have 5: "steps (chainOf ?ss) = ?ss"
    by (simp add: chainOf_def)
  have 6: "startedSteps (storeWith ?ss) = []"
    by (simp add: storeWith_def)
  from circular_dependency_rejected [OF 1 2 3 4, of alwaysQueued "''exec-1''" 10 20 "[]" False]
  show ?thesis
    using 1 2 3 by (simp add: 5 6)
qed

section \<open>ProcessManager: the registry of \<open>ProcessInfo\<close> records\<close>

lemma processes_frame [simp]:
  "processes (pm_emit e pm) = processes pm"
  "processes (modifyInfo a f pm) = processes pm"
  "processes (pm_clearTimer h pm) = processes pm"
  "processes (snd (pm_setTimer t pm)) = processes pm"
  "processes (pm_stopHealthCheck n pm) = processes pm"
  "processes (pm_startHealthCheck n pm) = processes pm"
  "processes (scheduleRestart n pm) = processes pm"
  "processes (startFailed n message now pm) = processes pm"
  by (simp_all add: pm_emit_def modifyInfo_def pm_clearTimer_def pm_setTimer_def
      pm_stopHealthCheck_def pm_startHealthCheck_def scheduleRestart_def startFailed_def
      split: option.splits prod.splits)

lemma processes_stopProcess [simp]: "processes (stopProcess n force pm) = processes pm"
  by (simp add: stopProcess_def Let_def split: option.splits)

lemma processes_stopAll [simp]:
  "processes (foldl (\<lambda>p n. stopProcess n True p) pm ns) = processes pm"
  by (induction ns arbitrary: pm) simp_all

lemma processes_startProcess:
  "processes (snd (startProcess cfg spawned now pm)) = processes pm \<or>
   processes (snd (startProcess cfg spawned now pm)) =
     AList.update (pc_name cfg) (length (heap pm)) (processes pm)"
  by (simp add: startProcess_def Let_def split: option.splits spawn_result.splits)

lemma keys_startProcess:
  "fst ` set (processes pm) \<subseteq> fst ` set (processes (snd (startProcess cfg spawned now pm)))"
proof -
  have "fst ` set (processes pm)
          \<subseteq> fst ` set (AList.update (pc_name cfg) (length (heap pm)) (processes pm))"
    unfolding dom_update by blast
  then show ?thesis
    using processes_startProcess [of cfg spawned now pm] by (elim disjE) simp_all
qed

lemma keys_step: "fst ` set (processes pm) \<subseteq> fst ` set (processes (pm_step a pm))"
proof (cases a)
  case (StartProcess cfg spawned now)
  then show ?thesis using keys_startProcess by simp
next
  case (RestartTimerFires h spawned now)
  show ?thesis
  proof (cases "map_of (pm_timers pm) h")
    case None
    then show ?thesis using RestartTimerFires by (simp add: restartTimerFires_def)
  next
    case (Some t)
    then show ?thesis
      using RestartTimerFires
        keys_startProcess [of "modifyInfo addr f (pm_clearTimer h pm)" for addr f]
      by (cases t) (simp_all add: restartTimerFires_def Let_def)
  qed
qed (simp_all add: stopProcessCompletes_def childExit_def childError_def killTimerFires_def
      healthTimerTick_def cleanup_def Let_def split: option.splits prod.splits pm_timer.splits)

lemma keys_run: "fst ` set (processes pm) \<subseteq> fst ` set (processes (pm_run acts pm))"
proof (induction acts arbitrary: pm)
  case Nil
  show ?case by simp
next
  case (Cons a acts)
  have "fst ` set (processes pm) \<subseteq> fst ` set (processes (pm_step a pm))"
    by (rule keys_step)
  also have "\<dots> \<subseteq> fst ` set (processes (pm_run acts (pm_step a pm)))"
    by (rule Cons.IH)
  finally show ?case by simp
qed


lemma heap_frame [simp]:
  "heap (pm_emit e pm) = heap pm"
  "heap (pm_clearTimer h pm) = heap pm"
  "heap (pm_startHealthCheck n pm) = heap pm"
  "heap (modifyInfo a f pm) = (heap pm)[a := f (heap pm ! a)]"
  by (simp_all add: pm_emit_def pm_clearTimer_def pm_startHealthCheck_def pm_setTimer_def
      modifyInfo_def split: option.splits prod.splits)

lemma startFailed_new:
  assumes "map_of (processes pm) n = Some (length hp)" and "heap pm = hp @ [i]"
  shows "processes (startFailed n message now pm) = processes pm"
    and "length (heap (startFailed n message now pm)) = Suc (length hp)"
    and "restartCount (heap (startFailed n message now pm) ! length hp) = restartCount i"
    and "pi_startTime (heap (startFailed n message now pm) ! length hp) = pi_startTime i"
    and "j < length hp \<Longrightarrow> heap (startFailed n message now pm) ! j = hp ! j"
  using assms by (simp_all add: startFailed_def nth_append)

lemma startProcess_not_running:
  assumes "map_of (processes pm) (pc_name cfg) = Some a"
    and "status (heap pm ! a) \<noteq> ProcRunning"
  shows "map_of (processes (snd (startProcess cfg spawned now pm))) (pc_name cfg)
           = Some (length (heap pm)) \<and>
         restartCount (heap (snd (startProcess cfg spawned now pm)) ! length (heap pm))
           = restartCount (heap pm ! a) \<and>
         pi_startTime (heap (snd (startProcess cfg spawned now pm)) ! length (heap pm))
           = Some now \<and>
         (\<forall>j < length (heap pm). heap (snd (startProcess cfg spawned now pm)) ! j = heap pm ! j)"
proof -
  define info where "info =
     \<lparr> pid = 0, name = pc_name cfg,
       commandLine = command cfg @ '' '' @ (case args cfg of None \<Rightarrow> [] | Some as \<Rightarrow> joinWith '' '' as),
       status = ProcStarting, pi_startTime = Some now, endTime = None,
       restartCount = restartCount (heap pm ! a), pi_lastError = None \<rparr>"
  define pm1 where "pm1 = pm\<lparr> configs := AList.update (pc_name cfg) cfg (configs pm),
                       heap := heap pm @ [info],
                       processes := AList.update (pc_name cfg) (length (heap pm)) (processes pm) \<rparr>"
  have reg: "map_of (processes pm1) (pc_name cfg) = Some (length (heap pm))"
    by (simp add: pm1_def update_conv')
  have hp: "heap pm1 = heap pm @ [info]"
    by (simp add: pm1_def)
  have rc: "restartCount info = restartCount (heap pm ! a)" "pi_startTime info = Some now"
    by (simp_all add: info_def)
  have failed: "snd (startProcess cfg spawned now pm) = startFailed (pc_name cfg) m now pm1 \<Longrightarrow> ?thesis" for m
    using startFailed_new [OF reg hp, where message = m and now = now] reg rc by simp
  show ?thesis
  proof (cases spawned)
    case (SpawnThrows m)
    have "snd (startProcess cfg spawned now pm) = startFailed (pc_name cfg) m now pm1"
      using assms SpawnThrows by (simp add: startProcess_def Let_def pm1_def info_def)
    then show ?thesis by (rule failed)
  next
    case (Spawned p)
    show ?thesis
    proof (cases "p = None \<or> p = Some 0")
      case True
      have "snd (startProcess cfg spawned now pm) =
          startFailed (pc_name cfg) ''Failed to start process - no PID assigned'' now pm1"
        using assms Spawned True by (auto simp: startProcess_def Let_def pm1_def info_def)
      then show ?thesis by (rule failed)
    next
      case False
      then obtain q where q: "p = Some q" "q \<noteq> 0" by (cases p) auto
      define pm2 where "pm2 = (modifyInfo (length (heap pm)) (\<lambda>i. i\<lparr>pid := q, status := ProcRunning\<rparr>) pm1)
                               \<lparr> childProcesses := AList.update (pc_name cfg) (length (children pm1)) (childProcesses pm1),
                                 children := children pm1 @ [(pc_name cfg, length (heap pm), cfg)] \<rparr>"
      have s: "snd (startProcess cfg spawned now pm) =
          pm_emit (ProcessStarted (pc_name cfg) (length (heap pm)))
            (if (case healthCheckUrl cfg of None \<Rightarrow> False | Some u \<Rightarrow> u \<noteq> []) \<and>
                (case pc_healthCheckInterval cfg of None \<Rightarrow> False | Some d \<Rightarrow> d \<noteq> 0)
             then pm_startHealthCheck (pc_name cfg) pm2 else pm2)"
        using assms Spawned q by (simp add: startProcess_def Let_def pm1_def pm2_def info_def)
      have p2: "processes pm2 = processes pm1" "heap pm2 = (heap pm @ [info])[length (heap pm) := info\<lparr>pid := q, status := ProcRunning\<rparr>]"
        by (simp_all add: pm2_def hp)
      show ?thesis
        using reg rc by (simp add: s p2 nth_append)
    qed
  qed
qed

lemma restart_replaces_record:
  assumes "map_of (pm_timers pm) h = Some (RestartTimer n addr cfg)"
    and "pc_name cfg = n"
    and "map_of (processes pm) n = Some addr"
    and "addr < length (heap pm)"
    and "status (heap pm ! addr) \<noteq> ProcRunning"
  shows "map_of (processes (restartTimerFires h spawned now pm)) n = Some (length (heap pm)) \<and>
         length (heap pm) \<noteq> addr \<and>
         restartCount (heap (restartTimerFires h spawned now pm) ! addr) = restartCount (heap pm ! addr) + 1 \<and>
         restartCount (heap (restartTimerFires h spawned now pm) ! length (heap pm))
           = restartCount (heap pm ! addr) + 1 \<and>
         pi_startTime (heap (restartTimerFires h spawned now pm) ! length (heap pm)) = Some now"
proof -
  define pm2 where "pm2 = modifyInfo addr (\<lambda>i. i\<lparr>restartCount := restartCount i + 1\<rparr>) (pm_clearTimer h pm)"
  have 1: "map_of (processes pm2) (pc_name cfg) = Some addr"
    using assms(2,3) by (simp add: pm2_def)
  have 2: "status (heap pm2 ! addr) \<noteq> ProcRunning"
    using assms(4,5) by (simp add: pm2_def)
  have 3: "heap pm2 ! addr = (heap pm ! addr)\<lparr>restartCount := restartCount (heap pm ! addr) + 1\<rparr>"
    "length (heap pm2) = length (heap pm)"
    using assms(4) by (simp_all add: pm2_def)
  have r: "restartTimerFires h spawned now pm =
      (snd (startProcess cfg spawned now pm2))\<lparr>restartTimers :=
         AList.delete n (restartTimers (snd (startProcess cfg spawned now pm2)))\<rparr>"
    using assms(1) by (simp add: restartTimerFires_def Let_def pm2_def)
  from startProcess_not_running [OF 1 2, of spawned now] assms(2,4) 3
  show ?thesis
    by (simp add: r)
qed

lemma comfyConfig_sel [simp]:
  "pc_name comfyConfig = ''comfyui''" "command comfyConfig = ''python''"
  "args comfyConfig = Some [''main.py'']" "pc_autoRestart comfyConfig = Some True"
  "maxRestarts comfyConfig = None" "healthCheckUrl comfyConfig = None"
  "pc_healthCheckInterval comfyConfig = None"
  by (simp_all add: comfyConfig_def)

lemma pmStarted_eq:
  "pmStarted =
     \<lparr> processes = [(''comfyui'', 0)], childProcesses = [(''comfyui'', 0)],
       configs = [(''comfyui'', comfyConfig)], healthCheckTimers = [], restartTimers = [],
       heap = [\<lparr> pid = 4242, name = ''comfyui'', commandLine = ''python main.py'',
                 status = ProcRunning, pi_startTime = Some 1000, endTime = None,
                 restartCount = 0, pi_lastError = None \<rparr>],
       children = [(''comfyui'', 0, comfyConfig)], pm_timers = [], pm_nextHandle = 0,
       signals = [], pm_emitted = [ProcessStarted ''comfyui'' 0] \<rparr>"
  by code_simp

lemma pmExited_eq:
  "pmExited =
     \<lparr> processes = [(''comfyui'', 0)], childProcesses = [],
       configs = [(''comfyui'', comfyConfig)], healthCheckTimers = [],
       restartTimers = [(''comfyui'', 0)],
       heap = [\<lparr> pid = 4242, name = ''comfyui'', commandLine = ''python main.py'',
                 status = ProcStopped, pi_startTime = Some 1000, endTime = Some 2000,
                 restartCount = 0, pi_lastError = None \<rparr>],
       children = [(''comfyui'', 0, comfyConfig)],
       pm_timers = [(0, RestartTimer ''comfyui'' 0 comfyConfig)], pm_nextHandle = 1,
       signals = [],
       pm_emitted = [ProcessStarted ''comfyui'' 0, ProcessExited ''comfyui'' (Some 1) None] \<rparr>"
  by code_simp

lemma pmRestarted_eq:
  "pmRestarted =
     \<lparr> processes = [(''comfyui'', 1)], childProcesses = [(''comfyui'', 1)],
       configs = [(''comfyui'', comfyConfig)], healthCheckTimers = [], restartTimers = [],
       heap = [\<lparr> pid = 4242, name = ''comfyui'', commandLine = ''python main.py'',
                 status = ProcStopped, pi_startTime = Some 1000, endTime = Some 2000,
                 restartCount = 1, pi_lastError = None \<rparr>,
               \<lparr> pid = 4343, name = ''comfyui'', commandLine = ''python main.py'',
                 status = ProcRunning, pi_startTime = Some 7000, endTime = None,
                 restartCount = 1, pi_lastError = None \<rparr>],
       children = [(''comfyui'', 0, comfyConfig), (''comfyui'', 1, comfyConfig)],
       pm_timers = [], pm_nextHandle = 1, signals = [],
       pm_emitted = [ProcessStarted ''comfyui'' 0, ProcessExited ''comfyui'' (Some 1) None,
                     ProcessStarted ''comfyui'' 1] \<rparr>"
  by code_simp

lemma pmStopped_eq:
  "pmStopped =
     \<lparr> processes = [(''comfyui'', 1)], childProcesses = [],
       configs = [(''comfyui'', comfyConfig)], healthCheckTimers = [],
       restartTimers = [(''comfyui'', 2)],
       heap = [\<lparr> pid = 4242, name = ''comfyui'', commandLine = ''python main.py'',
                 status = ProcStopped, pi_startTime = Some 1000, endTime = Some 2000,
                 restartCount = 1, pi_lastError = None \<rparr>,
               \<lparr> pid = 4343, name = ''comfyui'', commandLine = ''python main.py'',
                 status = ProcStopped, pi_startTime = Some 7000, endTime = Some 9000,
                 restartCount = 1, pi_lastError = None \<rparr>],
       children = [(''comfyui'', 0, comfyConfig), (''comfyui'', 1, comfyConfig)],
       pm_timers = [(1, KillTimer ''comfyui'' 1), (2, RestartTimer ''comfyui'' 1 comfyConfig)],
       pm_nextHandle = 3, signals = [(1, SIGTERM)],
       pm_emitted = [ProcessStarted ''comfyui'' 0, ProcessExited ''comfyui'' (Some 1) None,
                     ProcessStarted ''comfyui'' 1,
                     ProcessExited ''comfyui'' None (Some ''SIGTERM''),
                     ProcessStopped ''comfyui''] \<rparr>"
  by code_simp

lemma pmStopping_eq:
  "pmStopping =
     \<lparr> processes = [(''comfyui'', 1)], childProcesses = [(''comfyui'', 1)],
       configs = [(''comfyui'', comfyConfig)], healthCheckTimers = [], restartTimers = [],
       heap = [\<lparr> pid = 4242, name = ''comfyui'', commandLine = ''python main.py'',
                 status = ProcStopped, pi_startTime = Some 1000, endTime = Some 2000,
                 restartCount = 1, pi_lastError = None \<rparr>,
               \<lparr> pid = 4343, name = ''comfyui'', commandLine = ''python main.py'',
                 status = ProcStopping, pi_startTime = Some 7000, endTime = None,
                 restartCount = 1, pi_lastError = None \<rparr>],
       children = [(''comfyui'', 0, comfyConfig), (''comfyui'', 1, comfyConfig)],
       pm_timers = [(1, KillTimer ''comfyui'' 1)], pm_nextHandle = 2, signals = [(1, SIGTERM)],
       pm_emitted = [ProcessStarted ''comfyui'' 0, ProcessExited ''comfyui'' (Some 1) None,
                     ProcessStarted ''comfyui'' 1] \<rparr>"
  by code_simp

lemma stopProcess_effect:
  assumes "map_of (processes ps) m = Some a" and "map_of (childProcesses ps) m = Some c"
  shows "heap (stopProcess m force ps) = (heap ps)[a := (heap ps ! a)\<lparr>status := ProcStopping\<rparr>]"
    and "signals (stopProcess m force ps) = signals ps @ [(c, if force then SIGKILL else SIGTERM)]"
    and "childProcesses (stopProcess m force ps) = childProcesses ps"
    and "map_of (restartTimers (stopProcess m force ps)) m = None"
    and "map_of (healthCheckTimers (stopProcess m force ps)) m = None"
  using assms
  by (simp_all add: stopProcess_def Let_def pm_stopHealthCheck_def pm_clearTimer_def
      pm_setTimer_def modifyInfo_def delete_conv' split: option.splits)

lemma stopProcess_absent:
  assumes "map_of (processes ps) m = None \<or> map_of (childProcesses ps) m = None"
  shows "stopProcess m force ps = ps"
  using assms by (auto simp: stopProcess_def split: option.splits)

lemma childExit_effect:
  assumes "c < length (children pe)" and "children pe ! c = (m, a, cfg)"
  shows "processes (childExit c code sig now pe) = processes pe"
    and "heap (childExit c code sig now pe)
           = (heap pe)[a := (heap pe ! a)\<lparr>status := ProcStopped, endTime := Some now\<rparr>]"
    and "childProcesses (childExit c code sig now pe) = AList.delete m (childProcesses pe)"
  using assms
  by (simp_all add: childExit_def Let_def scheduleRestart_def pm_stopHealthCheck_def pm_emit_def
      modifyInfo_def pm_setTimer_def pm_clearTimer_def split: option.splits)

lemma processes_others:
  "processes (stopProcessCompletes k pm) = processes pm"
  "processes (childExit x code sig now pm) = processes pm"
  "processes (childError x msg now pm) = processes pm"
  "processes (killTimerFires t pm) = processes pm"
  "processes (healthTimerTick t ok pm) = processes pm"
  "processes (cleanup pm) = processes pm"
  by (simp_all add: stopProcessCompletes_def childExit_def childError_def killTimerFires_def
      healthTimerTick_def cleanup_def Let_def split: option.splits prod.splits pm_timer.splits)


lemma startProcess_registers:
  assumes "map_of (processes pm) (pc_name cfg) = Some a"
    and "status (heap pm ! a) \<noteq> ProcRunning"
  shows "processes (snd (startProcess cfg spawned now pm))
           = AList.update (pc_name cfg) (length (heap pm)) (processes pm)"
  using assms by (simp add: startProcess_def Let_def split: option.splits spawn_result.splits)

lemma restart_registers:
  assumes "map_of (pm_timers pm) h = Some (RestartTimer n addr cfg)"
    and "pc_name cfg = n"
    and "map_of (processes pm) n = Some addr"
    and "addr < length (heap pm)"
    and "status (heap pm ! addr) \<noteq> ProcRunning"
  shows "processes (restartTimerFires h spawned now pm)
           = AList.update n (length (heap pm)) (processes pm)"
proof -
  define pm2 where "pm2 = modifyInfo addr (\<lambda>i. i\<lparr>restartCount := restartCount i + 1\<rparr>) (pm_clearTimer h pm)"
  have 1: "map_of (processes pm2) (pc_name cfg) = Some addr"
    using assms(2,3) by (simp add: pm2_def)
  have 2: "status (heap pm2 ! addr) \<noteq> ProcRunning"
    using assms(4,5) by (simp add: pm2_def)
  have 3: "length (heap pm2) = length (heap pm)" "processes pm2 = processes pm"
    by (simp_all add: pm2_def)
  have r: "restartTimerFires h spawned now pm =
      (snd (startProcess cfg spawned now pm2))\<lparr>restartTimers :=
         AList.delete n (restartTimers (snd (startProcess cfg spawned now pm2)))\<rparr>"
    using assms(1) by (simp add: restartTimerFires_def Let_def pm2_def)
  show ?thesis
    using startProcess_registers [OF 1 2, of spawned now] assms(2) by (simp add: r 3)
qed

lemma pmStartedAgain_eq:
  "pmStartedAgain =
     \<lparr> processes = [(''comfyui'', 1)], childProcesses = [(''comfyui'', 1)],
       configs = [(''comfyui'', comfyConfig)], healthCheckTimers = [],
       restartTimers = [(''comfyui'', 0)],
       heap = [\<lparr> pid = 4242, name = ''comfyui'', commandLine = ''python main.py'',
                 status = ProcStopped, pi_startTime = Some 1000, endTime = Some 2000,
                 restartCount = 0, pi_lastError = None \<rparr>,
               \<lparr> pid = 4444, name = ''comfyui'', commandLine = ''python main.py'',
                 status = ProcRunning, pi_startTime = Some 3000, endTime = None,
                 restartCount = 0, pi_lastError = None \<rparr>],
       children = [(''comfyui'', 0, comfyConfig), (''comfyui'', 1, comfyConfig)],
       pm_timers = [(0, RestartTimer ''comfyui'' 0 comfyConfig)], pm_nextHandle = 1,
       signals = [],
       pm_emitted = [ProcessStarted ''comfyui'' 0, ProcessExited ''comfyui'' (Some 1) None,
                     ProcessStarted ''comfyui'' 1] \<rparr>"
  by code_simp

lemma pmLateTimer_eq:
  "pmLateTimer =
     \<lparr> processes = [(''comfyui'', 1)], childProcesses = [(''comfyui'', 1)],
       configs = [(''comfyui'', comfyConfig)], healthCheckTimers = [], restartTimers = [],
       heap = [\<lparr> pid = 4242, name = ''comfyui'', commandLine = ''python main.py'',
                 status = ProcStopped, pi_startTime = Some 1000, endTime = Some 2000,
                 restartCount = 1, pi_lastError = None \<rparr>,
               \<lparr> pid = 4444, name = ''comfyui'', commandLine = ''python main.py'',
                 status = ProcRunning, pi_startTime = Some 3000, endTime = None,
                 restartCount = 0, pi_lastError = None \<rparr>],
       children = [(''comfyui'', 0, comfyConfig), (''comfyui'', 1, comfyConfig)],
       pm_timers = [], pm_nextHandle = 1, signals = [],
       pm_emitted = [ProcessStarted ''comfyui'' 0, ProcessExited ''comfyui'' (Some 1) None,
                     ProcessStarted ''comfyui'' 1] \<rparr>"
  by code_simp

text \<open>
  Why the statement about an auto-restart below asks that the timer refers to the
  registered record and that the process is not running: when \<open>startProcess\<close> has been
  called in between, the timer counts the restart on the record it closed over, which
  is no longer registered, finds the process running and registers nothing; the
  registered record keeps \<open>restartCount = 0\<close>.
\<close>

lemma restart_timer_after_manual_start:
  "map_of (pm_timers pmStartedAgain) 0 = Some (RestartTimer ''comfyui'' 0 comfyConfig) \<and>
   map_of (processes pmStartedAgain) ''comfyui'' = Some 1 \<and>
   status (heap pmStartedAgain ! 1) = ProcRunning \<and>
   restartCount (heap pmStartedAgain ! 0) = 0 \<and>
   processes pmLateTimer = processes pmStartedAgain \<and>
   length (heap pmLateTimer) = 2 \<and>
   restartCount (heap pmLateTimer ! 0) = 1 \<and>
   restartCount (heap pmLateTimer ! 1) = 0"
  by (simp add: pmStartedAgain_eq pmLateTimer_eq)

text \<open>
  C9, as the claim states it, fails on both counts.  In the run below the restart
  timer counts the restart on the registered record (address 0) and \<open>startProcess\<close> then
  registers a newly built record (address 1) under the same name, with a new pid and
  start time and the carried-over \<open>restartCount\<close>; and after \<open>stopProcess\<close> has completed
  (the child has exited, \<open>processStopped\<close> is emitted) the record is still registered,
  with status \<open>stopped\<close>.
\<close>

theorem stopProcess_keeps_record_restart_replaces_it:
  "map_of (processes pmRestarted) ''comfyui'' = Some 1 \<and>
   map_of (processes pmStopped) ''comfyui'' = Some 1 \<and>
   map_of (childProcesses pmStopped) ''comfyui'' = None \<and>
   last (pm_emitted pmStopped) = ProcessStopped ''comfyui'' \<and>
   status (heap pmStopped ! 1) = ProcStopped \<and>
   map_of (processes pmExited) ''comfyui'' = Some 0 \<and>
   heap pmExited ! 0 =
     \<lparr> pid = 4242, name = ''comfyui'', commandLine = ''python main.py'', status = ProcStopped,
       pi_startTime = Some 1000, endTime = Some 2000, restartCount = 0, pi_lastError = None \<rparr> \<and>
   heap pmRestarted ! 0 =
     \<lparr> pid = 4242, name = ''comfyui'', commandLine = ''python main.py'', status = ProcStopped,
       pi_startTime = Some 1000, endTime = Some 2000, restartCount = 1, pi_lastError = None \<rparr> \<and>
   heap pmRestarted ! 1 =
     \<lparr> pid = 4343, name = ''comfyui'', commandLine = ''python main.py'', status = ProcRunning,
       pi_startTime = Some 7000, endTime = None, restartCount = 1, pi_lastError = None \<rparr>"
  by (simp add: pmStopped_eq pmRestarted_eq pmExited_eq)

text \<open>
  C9, amended.  No operation of \<open>ProcessManager\<close> removes a name from the registry,
  and the record registered under a name changes only when \<open>startProcess\<close>, called
  directly or by a restart timer, registers a newly created record under it.

  \<^item> Every name registered before a run of operations is registered after it.
    \<open>stopProcess\<close>, its completion, the \<open>exit\<close> and \<open>error\<close> handlers of a child, the
    kill timer, the health check and \<open>cleanup\<close> leave the registry exactly as it is;
    \<open>startProcess\<close> leaves it as it is or sets the entry of its name to a record
    created by the call.
  \<^item> \<open>stopProcess\<close> on a registered process with a live child sets the status of the
    registered record to \<open>stopping\<close> and changes nothing else in any record, sends
    \<open>SIGKILL\<close> (with \<open>force\<close>) or \<open>SIGTERM\<close> to the child, keeps the child handle, and
    leaves no restart timer registered for the name.  On a name that is not registered
    or has no live child it does nothing.
  \<^item> The \<open>exit\<close> handler of a child sets the status of the record it was set up with to
    \<open>stopped\<close> and its \<open>endTime\<close> to the time of the exit, changes nothing else in any
    record, and removes the child handle of that name, and nothing else, from
    \<open>childProcesses\<close>.
  \<^item> An auto-restart whose timer still refers to the registered record, the process
    not running, increments \<open>restartCount\<close> on that record and then replaces it in the
    registry by a newly created record (a different object), which has the incremented
    \<open>restartCount\<close> and the time of the restart as its \<open>startTime\<close>.

  The premises \<open>addr < length (heap pm)\<close>, \<open>a < length (heap ps)\<close> and
  \<open>a' < length (heap pe)\<close> say that the registered record and the record a handler
  closed over are objects of the store.
\<close>

theorem processInfo_registry:
  assumes "map_of (pm_timers pm) h = Some (RestartTimer n addr cfg)"
    and "pc_name cfg = n"
    and "map_of (processes pm) n = Some addr"
    and "addr < length (heap pm)"
    and "status (heap pm ! addr) \<noteq> ProcRunning"
    and "map_of (processes ps) m = Some a"
    and "map_of (childProcesses ps) m = Some c"
    and "a < length (heap ps)"
    and "x < length (children pe)"
    and "children pe ! x = (m', a', cfg')"
    and "a' < length (heap pe)"
    and "map_of (processes pn) j = None \<or> map_of (childProcesses pn) j = None"
  shows "fst ` set (processes pmx) \<subseteq> fst ` set (processes (pm_run acts pmx)) \<and>
         processes (stopProcess k forcex pmx) = processes pmx \<and>
         processes (stopProcessCompletes k pmx) = processes pmx \<and>
         processes (childExit cx codex sigx nowx pmx) = processes pmx \<and>
         processes (childError cx msgx nowx pmx) = processes pmx \<and>
         processes (killTimerFires hx pmx) = processes pmx \<and>
         processes (healthTimerTick hx okx pmx) = processes pmx \<and>
         processes (cleanup pmx) = processes pmx \<and>
         (processes (snd (startProcess cfgx spawnedx nowx pmx)) = processes pmx \<or>
          processes (snd (startProcess cfgx spawnedx nowx pmx))
            = AList.update (pc_name cfgx) (length (heap pmx)) (processes pmx)) \<and>
         heap (stopProcess m force ps) = (heap ps)[a := (heap ps ! a)\<lparr>status := ProcStopping\<rparr>] \<and>
         status (heap (stopProcess m force ps) ! a) = ProcStopping \<and>
         signals (stopProcess m force ps) = signals ps @ [(c, if force then SIGKILL else SIGTERM)] \<and>
         childProcesses (stopProcess m force ps) = childProcesses ps \<and>
         map_of (restartTimers (stopProcess m force ps)) m = None \<and>
         stopProcess j forcen pn = pn \<and>
         heap (childExit x code sig nowe pe)
           = (heap pe)[a' := (heap pe ! a')\<lparr>status := ProcStopped, endTime := Some nowe\<rparr>] \<and>
         status (heap (childExit x code sig nowe pe) ! a') = ProcStopped \<and>
         endTime (heap (childExit x code sig nowe pe) ! a') = Some nowe \<and>
         childProcesses (childExit x code sig nowe pe) = AList.delete m' (childProcesses pe) \<and>
         processes (restartTimerFires h spawned now pm)
           = AList.update n (length (heap pm)) (processes pm) \<and>
         map_of (processes (restartTimerFires h spawned now pm)) n = Some (length (heap pm)) \<and>
         length (heap pm) \<noteq> addr \<and>
         restartCount (heap (restartTimerFires h spawned now pm) ! addr)
           = restartCount (heap pm ! addr) + 1 \<and>
         restartCount (heap (restartTimerFires h spawned now pm) ! length (heap pm))
           = restartCount (heap pm ! addr) + 1 \<and>
         pi_startTime (heap (restartTimerFires h spawned now pm) ! length (heap pm)) = Some now"
proof -
  note s = stopProcess_effect [OF assms(6,7), of force]
  note e = childExit_effect [OF assms(9,10), of code sig nowe]
  have s2: "status (heap (stopProcess m force ps) ! a) = ProcStopping"
    using assms(8) by (simp add: s(1))
  have e2: "status (heap (childExit x code sig nowe pe) ! a') = ProcStopped"
    "endTime (heap (childExit x code sig nowe pe) ! a') = Some nowe"
    using assms(11) by (simp_all add: e(2))
  have frame: "processes (stopProcess k forcex pmx) = processes pmx"
    "processes (stopProcessCompletes k pmx) = processes pmx"
    "processes (childExit cx codex sigx nowx pmx) = processes pmx"
    "processes (childError cx msgx nowx pmx) = processes pmx"
    "processes (killTimerFires hx pmx) = processes pmx"
    "processes (healthTimerTick hx okx pmx) = processes pmx"
    "processes (cleanup pmx) = processes pmx"
    by (simp_all add: processes_others)
  note st = processes_startProcess [of cfgx spawnedx nowx pmx]
  note ab = stopProcess_absent [OF assms(12), of forcen]
  note r1 = restart_registers [OF assms(1-5), of spawned now]
  note r2 = restart_replaces_record [OF assms(1-5), of spawned now]
  show ?thesis
    by (intro conjI) (rule keys_run frame st s(1) s2 s(2) s(3) s(4) ab e(2) e2 e(3) r1
        r2 [THEN conjunct1] r2 [THEN conjunct2, THEN conjunct1]
        r2 [THEN conjunct2, THEN conjunct2, THEN conjunct1]
        r2 [THEN conjunct2, THEN conjunct2, THEN conjunct2, THEN conjunct1]
        r2 [THEN conjunct2, THEN conjunct2, THEN conjunct2, THEN conjunct2])+
qed

theorem processInfo_registry_witness:
  "map_of (pm_timers pmExited) 0 = Some (RestartTimer ''comfyui'' 0 comfyConfig) \<and>
   pc_name comfyConfig = ''comfyui'' \<and>
   map_of (processes pmExited) ''comfyui'' = Some 0 \<and>
   0 < length (heap pmExited) \<and>
   status (heap pmExited ! 0) \<noteq> ProcRunning \<and>
   map_of (processes pmRestarted) ''comfyui'' = Some 1 \<and>
   map_of (childProcesses pmRestarted) ''comfyui'' = Some 1 \<and>
   1 < length (heap pmRestarted) \<and>
   1 < length (children pmStopping) \<and>
   children pmStopping ! 1 = (''comfyui'', 1, comfyConfig) \<and>
   1 < length (heap pmStopping) \<and>
   (map_of (processes pmExited) ''comfyui'' = None \<or> map_of (childProcesses pmExited) ''comfyui'' = None) \<and>
   stopProcess ''comfyui'' False pmExited = pmExited \<and>
   fst ` set (processes pmRestarted) \<subseteq> fst ` set (processes pmStopped) \<and>
   processes pmStopping = processes pmRestarted \<and>
   processes pmStopped = processes pmRestarted \<and>
   status (heap pmRestarted ! 1) = ProcRunning \<and>
   status (heap pmStopping ! 1) = ProcStopping \<and>
   signals pmRestarted = [] \<and>
   signals pmStopping = [(1, SIGTERM)] \<and>
   childProcesses pmStopping = childProcesses pmRestarted \<and>
   heap (childExit 1 None (Some ''SIGTERM'') 9000 pmStopping) =
     (heap pmStopping)[1 := (heap pmStopping ! 1)\<lparr>status := ProcStopped, endTime := Some 9000\<rparr>] \<and>
   status (heap (childExit 1 None (Some ''SIGTERM'') 9000 pmStopping) ! 1) = ProcStopped \<and>
   endTime (heap (childExit 1 None (Some ''SIGTERM'') 9000 pmStopping) ! 1) = Some 9000 \<and>
   childProcesses (childExit 1 None (Some ''SIGTERM'') 9000 pmStopping) = [] \<and>
   processes pmExited = [(''comfyui'', 0)] \<and>
   processes pmRestarted = [(''comfyui'', 1)] \<and>
   restartCount (heap pmRestarted ! 0) = restartCount (heap pmExited ! 0) + 1 \<and>
   restartCount (heap pmRestarted ! 1) = restartCount (heap pmExited ! 0) + 1 \<and>
   pi_startTime (heap pmRestarted ! 1) = Some 7000"
proof -
  have h: "map_of (pm_timers pmExited) 0 = Some (RestartTimer ''comfyui'' 0 comfyConfig)"
    "pc_name comfyConfig = ''comfyui''"
    "map_of (processes pmExited) ''comfyui'' = Some 0"
    "0 < length (heap pmExited)"
    "status (heap pmExited ! 0) \<noteq> ProcRunning"
    "map_of (processes pmRestarted) ''comfyui'' = Some 1"
    "map_of (childProcesses pmRestarted) ''comfyui'' = Some 1"
    "1 < length (heap pmRestarted)"
    "1 < length (children pmStopping)"
    "children pmStopping ! 1 = (''comfyui'', 1, comfyConfig)"
    "1 < length (heap pmStopping)"
    "map_of (processes pmExited) ''comfyui'' = None \<or> map_of (childProcesses pmExited) ''comfyui'' = None"
    by (simp_all add: pmExited_eq pmRestarted_eq pmStopping_eq)
  have r: "restartTimerFires 0 (Spawned (Some 4343)) 7000 pmExited = pmRestarted"
    by (simp add: pmRestarted_def)
  have s: "stopProcess ''comfyui'' False pmRestarted = pmStopping"
    by (simp add: pmStopping_def)
  have t: "pm_run [StopProcess ''comfyui'' False, ChildExit 1 None (Some ''SIGTERM'') 9000,
             StopProcessCompletes ''comfyui''] pmRestarted = pmStopped"
    by (simp only: pmStopped_def)
  have l: "length (heap pmExited) = 1"
    "processes pmStopped = processes pmRestarted" "signals pmRestarted = []"
    "status (heap pmRestarted ! 1) = ProcRunning" "processes pmExited = [(''comfyui'', 0)]"
    "childProcesses pmStopping = [(''comfyui'', 1)]"
    by (simp_all add: pmExited_eq pmStopping_eq pmStopped_eq pmRestarted_eq)
  note inst = processInfo_registry [OF h, where pmx = pmRestarted
      and acts = "[StopProcess ''comfyui'' False, ChildExit 1 None (Some ''SIGTERM'') 9000,
        StopProcessCompletes ''comfyui'']"
      and k = "''comfyui''" and forcex = False and force = False and forcen = False
      and spawned = "Spawned (Some 4343)" and now = 7000
      and code = None and sig = "Some ''SIGTERM''" and nowe = 9000, unfolded r s t]
  show ?thesis
    using h l inst by simp
qed

end
